theory Spec2Isabelle
  imports Complex_Main "HOL-Library.Sublist"
begin

section \<open>Characters\<close>

text \<open>
  A transcript is a \<^typ>\<open>string\<close>: a list of 8-bit characters, read as ASCII. The
  character tests below are written on the bits of a character, least significant bit
  first, so that they evaluate quickly; the lemmas of the section "Character tables"
  restate each one as membership in the set of characters it stands for.
\<close>

fun low5_letter :: "bool \<Rightarrow> bool \<Rightarrow> bool \<Rightarrow> bool \<Rightarrow> bool \<Rightarrow> bool" where
  "low5_letter b0 b1 b2 b3 b4 =
     ((b0 \<or> b1 \<or> b2 \<or> b3 \<or> b4) \<and> \<not> (b4 \<and> b3 \<and> (b2 \<or> (b1 \<and> b0))))"

fun is_lower :: "char \<Rightarrow> bool" where
  "is_lower (Char b0 b1 b2 b3 b4 b5 b6 b7) = (b5 \<and> b6 \<and> \<not> b7 \<and> low5_letter b0 b1 b2 b3 b4)"

fun is_upper :: "char \<Rightarrow> bool" where
  "is_upper (Char b0 b1 b2 b3 b4 b5 b6 b7) = (\<not> b5 \<and> b6 \<and> \<not> b7 \<and> low5_letter b0 b1 b2 b3 b4)"

fun is_digit :: "char \<Rightarrow> bool" where
  "is_digit (Char b0 b1 b2 b3 b4 b5 b6 b7) =
     (b4 \<and> b5 \<and> \<not> b6 \<and> \<not> b7 \<and> \<not> (b3 \<and> (b2 \<or> b1)))"

text \<open>\<open>String.prototype.toUpperCase\<close> and \<open>toLowerCase\<close> on one ASCII character.\<close>

fun to_upper_char :: "char \<Rightarrow> char" where
  "to_upper_char (Char b0 b1 b2 b3 b4 b5 b6 b7) =
     (if b5 \<and> b6 \<and> \<not> b7 \<and> low5_letter b0 b1 b2 b3 b4
      then Char b0 b1 b2 b3 b4 False b6 b7 else Char b0 b1 b2 b3 b4 b5 b6 b7)"

fun to_lower_char :: "char \<Rightarrow> char" where
  "to_lower_char (Char b0 b1 b2 b3 b4 b5 b6 b7) =
     (if \<not> b5 \<and> b6 \<and> \<not> b7 \<and> low5_letter b0 b1 b2 b3 b4
      then Char b0 b1 b2 b3 b4 True b6 b7 else Char b0 b1 b2 b3 b4 b5 b6 b7)"

definition toUpperCase :: "string \<Rightarrow> string" where
  "toUpperCase s = map to_upper_char s"

definition toLowerCase :: "string \<Rightarrow> string" where
  "toLowerCase s = map to_lower_char s"

text \<open>The word characters of \<open>\b\<close>: letters, digits and the underscore.\<close>

definition is_word_char :: "char \<Rightarrow> bool" where
  "is_word_char c = (is_lower c \<or> is_upper c \<or> is_digit c \<or> c = CHR ''_'')"

text \<open>The white space of \<open>\s\<close> among 8-bit characters: TAB, LF, VT, FF, CR, space, NBSP.\<close>

definition is_space :: "char \<Rightarrow> bool" where
  "is_space c = (c \<in> set [CHR 0x09, CHR 0x0A, CHR 0x0B, CHR 0x0C, CHR 0x0D, CHR '' '', CHR 0xA0])"

text \<open>Order of two characters by code, compared from the most significant bit down.\<close>

fun bits_le :: "bool list \<Rightarrow> bool list \<Rightarrow> bool" where
  "bits_le (a # as) (b # bs) = (if a = b then bits_le as bs else b)"
| "bits_le _ _ = True"

fun char_le :: "char \<Rightarrow> char \<Rightarrow> bool" where
  "char_le (Char a0 a1 a2 a3 a4 a5 a6 a7) (Char b0 b1 b2 b3 b4 b5 b6 b7) =
     bits_le [a7, a6, a5, a4, a3, a2, a1, a0] [b7, b6, b5, b4, b3, b2, b1, b0]"

section \<open>Regular expressions\<close>

text \<open>
  The extractor is written with JavaScript regular expressions. Each pattern of the source
  is transcribed as a term of type \<open>regex\<close>; every pattern of the source carries the \<open>i\<close>
  flag, so the matcher compares characters after canonicalisation (upper-casing).
\<close>

datatype citem = CChar char | CRange char char | CDigit | CSpace

datatype regex =
    Chr char
  | Cls "citem list"
  | Dot
  | Eps
  | Seq regex regex
  | Alt regex regex
  | Rep nat "nat option" regex
  | Group nat regex
  | WordB
  | NegLook regex

text \<open>
  A matcher state: the characters to the left of the current position (nearest first),
  the characters to the right, and the captures.
\<close>

record mstate =
  seen :: string
  rest :: string
  caps :: "nat \<Rightarrow> string option"

fun item_match :: "citem \<Rightarrow> char \<Rightarrow> bool" where
  "item_match (CChar a) c = (to_upper_char a = to_upper_char c)"
| "item_match (CRange lo hi) c =
     ((char_le lo c \<and> char_le c hi)
      \<or> (char_le lo (to_upper_char c) \<and> char_le (to_upper_char c) hi)
      \<or> (char_le lo (to_lower_char c) \<and> char_le (to_lower_char c) hi))"
| "item_match CDigit c = is_digit c"
| "item_match CSpace c = is_space c"

definition step_if :: "(char \<Rightarrow> bool) \<Rightarrow> mstate \<Rightarrow> mstate list" where
  "step_if p s = (case rest s of [] \<Rightarrow> []
     | x # xs \<Rightarrow> if p x then [s\<lparr>seen := x # seen s, rest := xs\<rparr>] else [])"

definition dec_max :: "nat option \<Rightarrow> nat option" where
  "dec_max mx = map_option (\<lambda>n. n - 1) mx"

text \<open>
  The quantifier \<open>{min,max}\<close> (greedy), as RepeatMatcher of ECMA-262 does it: \<open>min\<close>
  iterations that must succeed, then iterations that are tried first and that are
  rejected when they consume nothing. An iteration consumes a character, so the
  characters to the right bound the number of optional iterations: they are the third
  argument of \<open>rep_opt\<close>.
\<close>

primrec rep_opt :: "(mstate \<Rightarrow> mstate list) \<Rightarrow> nat option \<Rightarrow> string \<Rightarrow> mstate \<Rightarrow> mstate list" where
  "rep_opt f mx [] s = [s]"
| "rep_opt f mx (c # fuel) s =
     (if mx = Some 0 then [s]
      else concat (map (\<lambda>s'. if rest s' = rest s then [] else rep_opt f (dec_max mx) fuel s') (f s))
           @ [s])"

primrec rep_min :: "(mstate \<Rightarrow> mstate list) \<Rightarrow> nat \<Rightarrow> nat option \<Rightarrow> mstate \<Rightarrow> mstate list" where
  "rep_min f 0 mx s = rep_opt f mx (rest s) s"
| "rep_min f (Suc n) mx s =
     (if mx = Some 0 then [s] else concat (map (rep_min f n (dec_max mx)) (f s)))"

primrec groups :: "regex \<Rightarrow> nat list" where
  "groups (Chr c) = []"
| "groups (Cls cs) = []"
| "groups Dot = []"
| "groups Eps = []"
| "groups (Seq a b) = groups a @ groups b"
| "groups (Alt a b) = groups a @ groups b"
| "groups (Rep mn mx r) = groups r"
| "groups (Group i r) = i # groups r"
| "groups WordB = []"
| "groups (NegLook r) = groups r"

definition clear_caps :: "nat list \<Rightarrow> mstate \<Rightarrow> mstate" where
  "clear_caps gs s = s\<lparr>caps := (\<lambda>i. if i \<in> set gs then None else caps s i)\<rparr>"

definition word_before :: "mstate \<Rightarrow> bool" where
  "word_before s = (case seen s of [] \<Rightarrow> False | c # _ \<Rightarrow> is_word_char c)"

definition word_after :: "mstate \<Rightarrow> bool" where
  "word_after s = (case rest s of [] \<Rightarrow> False | c # _ \<Rightarrow> is_word_char c)"

text \<open>
  The backtracking matcher: all the ways \<open>r\<close> matches at the current position, in the
  order in which JavaScript tries them. The first one is the match JavaScript reports.
\<close>

primrec rx_match :: "regex \<Rightarrow> mstate \<Rightarrow> mstate list" where
  "rx_match (Chr a) s = step_if (\<lambda>c. to_upper_char c = to_upper_char a) s"
| "rx_match (Cls cs) s = step_if (\<lambda>c. \<exists>i \<in> set cs. item_match i c) s"
| "rx_match Dot s = step_if (\<lambda>c. c \<noteq> CHR 0x0A \<and> c \<noteq> CHR 0x0D) s"
| "rx_match Eps s = [s]"
| "rx_match (Seq a b) s = concat (map (rx_match b) (rx_match a s))"
| "rx_match (Alt a b) s = rx_match a s @ rx_match b s"
| "rx_match (Rep mn mx r) s = rep_min (\<lambda>s. rx_match r (clear_caps (groups r) s)) mn mx s"
| "rx_match (Group i r) s =
     map (\<lambda>s'. s'\<lparr>caps := (caps s')(i := Some (take (length (rest s) - length (rest s')) (rest s)))\<rparr>)
       (rx_match r s)"
| "rx_match WordB s = (if word_before s \<noteq> word_after s then [s] else [])"
| "rx_match (NegLook r) s = (if rx_match r s = [] then [s] else [])"

definition start_state :: "string \<Rightarrow> string \<Rightarrow> mstate" where
  "start_state b a = \<lparr>seen = b, rest = a, caps = (\<lambda>_. None)\<rparr>"

text \<open>
  \<open>RegExp.prototype.exec\<close> without the \<open>g\<close> flag: the leftmost position at which
  the pattern matches, with the state at the start and at the end of the match.
\<close>

primrec rx_search :: "regex \<Rightarrow> string \<Rightarrow> string \<Rightarrow> (mstate \<times> mstate) option" where
  "rx_search r b [] = (case rx_match r (start_state b []) of
       [] \<Rightarrow> None | x # _ \<Rightarrow> Some (start_state b [], x))"
| "rx_search r b (c # cs) = (case rx_match r (start_state b (c # cs)) of
       [] \<Rightarrow> rx_search r (c # b) cs | x # _ \<Rightarrow> Some (start_state b (c # cs), x))"

text \<open>\<open>text.match(pattern)\<close>, \<open>pattern.test(text)\<close>, \<open>match[i]\<close>, and the text before \<open>match.index\<close>.\<close>

definition js_match :: "string \<Rightarrow> regex \<Rightarrow> (mstate \<times> mstate) option" where
  "js_match text r = rx_search r [] text"

definition js_test :: "regex \<Rightarrow> string \<Rightarrow> bool" where
  "js_test r text = (js_match text r \<noteq> None)"

definition grp :: "(mstate \<times> mstate) \<Rightarrow> nat \<Rightarrow> string option" where
  "grp mt i = caps (snd mt) i"

definition before_match :: "(mstate \<times> mstate) \<Rightarrow> string" where
  "before_match mt = seen (fst mt)"

text \<open>Pattern builders.\<close>

definition rx_str :: "string \<Rightarrow> regex" where
  "rx_str cs = foldr (\<lambda>c r. Seq (Chr c) r) cs Eps"

definition rx_seq :: "regex list \<Rightarrow> regex" where
  "rx_seq rs = foldr Seq rs Eps"

primrec rx_alt :: "regex list \<Rightarrow> regex" where
  "rx_alt [] = Eps"
| "rx_alt (r # rs) = (if rs = [] then r else Alt r (rx_alt rs))"

definition rx_words :: "string list \<Rightarrow> regex" where
  "rx_words ws = rx_alt (map rx_str ws)"

definition rx_opt :: "regex \<Rightarrow> regex" where "rx_opt r = Rep 0 (Some 1) r"
definition rx_star :: "regex \<Rightarrow> regex" where "rx_star r = Rep 0 None r"
definition rx_plus :: "regex \<Rightarrow> regex" where "rx_plus r = Rep 1 None r"
definition rx_ws :: regex where "rx_ws = Cls [CSpace]"
definition rx_digit :: regex where "rx_digit = Cls [CDigit]"

text \<open>\<open>new RegExp(source)\<close> for a source made of literal characters and \<open>.\<close>.\<close>

definition rx_source :: "string \<Rightarrow> regex" where
  "rx_source cs = foldr (\<lambda>c r. Seq (if c = CHR ''.'' then Dot else Chr c) r) cs Eps"

section \<open>Strings and numbers of the host language\<close>

fun starts_with :: "string \<Rightarrow> string \<Rightarrow> bool" where
  "starts_with s [] = True"
| "starts_with [] (p # ps) = False"
| "starts_with (c # cs) (p # ps) = (c = p \<and> starts_with cs ps)"

text \<open>\<open>String.prototype.includes\<close>.\<close>

primrec js_includes :: "string \<Rightarrow> string \<Rightarrow> bool" where
  "js_includes [] sub = (sub = [])"
| "js_includes (c # cs) sub = (starts_with (c # cs) sub \<or> js_includes cs sub)"

text \<open>
  \<open>text.replace(new RegExp(source, 'gi'), rep)\<close>: every match is replaced, from left to
  right; the search goes on after the match, and one character further after an empty
  match. The replacement strings of the source contain no \<open>$\<close>.
\<close>

function replace_all :: "regex \<Rightarrow> string \<Rightarrow> string \<Rightarrow> string \<Rightarrow> string" where
  "replace_all r rep b a =
     (case rx_match r (start_state b a) of
        x # _ \<Rightarrow>
          (if length (rest x) < length a then rep @ replace_all r rep (seen x) (rest x)
           else (case a of [] \<Rightarrow> rep | c # cs \<Rightarrow> rep @ c # replace_all r rep (c # b) cs))
      | [] \<Rightarrow> (case a of [] \<Rightarrow> [] | c # cs \<Rightarrow> c # replace_all r rep (c # b) cs))"
  by pat_completeness auto
termination
  by (relation "measure (\<lambda>(r, rep, b, a). length a)") auto

declare replace_all.simps [simp del]

definition js_replace_all :: "string \<Rightarrow> regex \<Rightarrow> string \<Rightarrow> string" where
  "js_replace_all text r rep = replace_all r rep [] text"

text \<open>
  A JavaScript number is modelled by the rational it denotes. \<open>parseFloat\<close> reads the
  longest prefix of the form digits, optional point, digits; the strings it is given here
  are captures of \<open>[\d,]+(?:\.\d{1,2})?\<close> with the commas removed, so signs, exponents
  and \<open>Infinity\<close> do not occur. \<open>None\<close> is \<open>NaN\<close>.
\<close>

type_synonym num = rat

definition digit_val :: "char \<Rightarrow> int" where
  "digit_val c =
     (case map_of [(CHR ''0'', 0), (CHR ''1'', 1), (CHR ''2'', 2), (CHR ''3'', 3), (CHR ''4'', 4),
                   (CHR ''5'', 5), (CHR ''6'', 6), (CHR ''7'', 7), (CHR ''8'', 8), (CHR ''9'', 9)] c of
        None \<Rightarrow> 0 | Some d \<Rightarrow> d)"

definition int_of_digits :: "string \<Rightarrow> int" where
  "int_of_digits ds = foldl (\<lambda>acc d. 10 * acc + digit_val d) 0 ds"

definition parseFloat :: "string \<Rightarrow> num option" where
  "parseFloat s =
     (let ip = takeWhile is_digit s;
          r = dropWhile is_digit s;
          fp = (case r of [] \<Rightarrow> [] | c # r' \<Rightarrow> if c = CHR ''.'' then takeWhile is_digit r' else [])
      in if ip = [] \<and> fp = [] then None
         else Some (of_int (int_of_digits ip) + of_int (int_of_digits fp) / 10 ^ length fp))"

text \<open>\<open>parseInt(s, 10)\<close> on a capture of \<open>\d+\<close> (or on \<open>undefined\<close>).\<close>

definition parseInt :: "string option \<Rightarrow> num option" where
  "parseInt str =
     (case str of None \<Rightarrow> None
      | Some s \<Rightarrow> (let ds = takeWhile is_digit s in if ds = [] then None else Some (of_int (int_of_digits ds))))"

text \<open>\<open>parseNumber\<close> of the source: a number that may contain commas.\<close>

definition parseNumber :: "string option \<Rightarrow> num option" where
  "parseNumber str =
     (case str of None \<Rightarrow> None
      | Some s \<Rightarrow> if s = [] then None else parseFloat (filter (\<lambda>c. c \<noteq> CHR '','') s))"

section \<open>Lookup tables\<close>

definition EXCLUDED_WORDS :: "string list" where
  "EXCLUDED_WORDS =
    [''AT'', ''THE'', ''AND'', ''FOR'', ''WITH'', ''USD'', ''USDT'', ''USDC'', ''EUR'', ''GBP'',
     ''BUY'', ''SELL'', ''LONG'', ''SHORT'', ''STOP'', ''LOSS'', ''TAKE'', ''PROFIT'', ''TARGET'',
     ''OPEN'', ''CLOSE'', ''SET'', ''PUT'', ''CALL'', ''GET'', ''TRADE'', ''TRADING'',
     ''PRICE'', ''SHARES'', ''CONTRACTS'', ''LOTS'', ''QUANTITY'', ''POSITION'', ''SIZE'',
     ''MEET'', ''MEAN'', ''REVERSION'', ''MARKET'', ''LIMIT'', ''ORDER'']"

definition CRYPTO_TOKENS :: "string list" where
  "CRYPTO_TOKENS =
    [''BTC'', ''ETH'', ''SOL'', ''XRP'', ''ADA'', ''DOGE'', ''DOT'', ''MATIC'', ''LINK'', ''AVAX'',
     ''UNI'', ''ATOM'', ''LTC'', ''BCH'', ''XLM'', ''ALGO'', ''VET'', ''FTM'', ''NEAR'', ''APT'',
     ''ARB'', ''OP'', ''INJ'', ''SUI'', ''SEI'', ''TIA'', ''PEPE'', ''SHIB'', ''BONK'', ''WIF'',
     ''BNB'', ''XMR'']"

definition CRYPTO_NAME_TO_TICKER :: "(string \<times> string) list" where
  "CRYPTO_NAME_TO_TICKER =
    [(''BITCOIN'', ''BTC''), (''ETHEREUM'', ''ETH''), (''SOLANA'', ''SOL''), (''CARDANO'', ''ADA''),
     (''DOGECOIN'', ''DOGE''), (''AVALANCHE'', ''AVAX''), (''POLKADOT'', ''DOT''),
     (''CHAINLINK'', ''LINK''), (''LITECOIN'', ''LTC''), (''MONERO'', ''XMR''),
     (''BINANCE COIN'', ''BNB''), (''BNB'', ''BNB''), (''RIPPLE'', ''XRP'')]"

definition SPOKEN_PAIR_VARIANTS :: "(string \<times> string) list" where
  "SPOKEN_PAIR_VARIANTS =
    [(''BITCOIN TETHER'', ''BTC/USDT''), (''BTC USDT'', ''BTC/USDT''),
     (''ETHEREUM TETHER'', ''ETH/USDT''), (''ETHER TETHER'', ''ETH/USDT''),
     (''ETH USDT'', ''ETH/USDT''), (''EURO DOLLAR'', ''EUR/USD''), (''POUND DOLLAR'', ''GBP/USD''),
     (''STERLING DOLLAR'', ''GBP/USD''), (''DOLLAR YEN'', ''USD/JPY'')]"

definition EXCHANGES :: "string list" where
  "EXCHANGES =
    [''BINANCE'', ''COINBASE'', ''KRAKEN'', ''BYBIT'', ''OKX'', ''KUCOIN'', ''BITFINEX'',
     ''GEMINI'', ''HUOBI'', ''GATE.IO'', ''BITGET'', ''MEXC'', ''CRYPTO.COM'']"

definition INDICATORS :: "string list" where
  "INDICATORS =
    [''RSI'', ''MACD'', ''MHCD'', ''MCD'', ''MAC D'',
     ''EMA'', ''SMA'', ''VWAP'', ''ATR'', ''BOLLINGER'', ''BOLLINGER BANDS'',
     ''STOCHASTIC'', ''FIBONACCI'', ''ICHIMOKU'', ''ADX'', ''CCI'', ''WILLIAMS'']"

definition INDICATOR_CORRECTIONS :: "(string \<times> string) list" where
  "INDICATOR_CORRECTIONS = [(''MHCD'', ''MACD''), (''MCD'', ''MACD''), (''MAC D'', ''MACD'')]"

definition STOP_LOSS_VARIANTS :: "string list" where
  "STOP_LOSS_VARIANTS =
    [''STOP LOSS'', ''STOPLOSS'', ''STOP-LOSS'',
     ''STOPPLERS'', ''STOPPERS'', ''STOP PLUS'', ''STOPPER'',
     ''SL'', ''S L'', ''S.L.'']"

definition TIMEFRAME_VARIANTS :: "(string \<times> string) list" where
  "TIMEFRAME_VARIANTS =
    [(''FIFTEEN MINUTES'', ''15m''), (''15 MINUTES'', ''15m''), (''15-MINUTE'', ''15m''),
     (''15M CHART'', ''15m''),
     (''FIVE MINUTES'', ''5m''), (''5 MINUTES'', ''5m''), (''5-MINUTE'', ''5m''), (''5M CHART'', ''5m''),
     (''ONE MINUTE'', ''1m''), (''1 MINUTE'', ''1m''), (''1-MINUTE'', ''1m''), (''1M CHART'', ''1m''),
     (''FOUR-HOUR'', ''4h''), (''4-HOUR'', ''4h''), (''FOUR HOUR'', ''4h''), (''FOUR HOURS'', ''4h''),
     (''4 HOUR'', ''4h''), (''4 HOURS'', ''4h''), (''4H CHART'', ''4h''),
     (''ONE-HOUR'', ''1h''), (''1-HOUR'', ''1h''), (''ONE HOUR'', ''1h''), (''1 HOUR'', ''1h''),
     (''1H CHART'', ''1h''), (''HOUR CHART'', ''1h''), (''HOURLY'', ''1h''),
     (''ONE DAY'', ''1D''), (''1 DAY'', ''1D''), (''1-DAY'', ''1D''), (''DAY CHART'', ''1D''),
     (''DAILY'', ''1D''),
     (''ONE WEEK'', ''1W''), (''1 WEEK'', ''1W''), (''1-WEEK'', ''1W''), (''WEEK CHART'', ''1W''),
     (''WEEKLY'', ''1W''),
     (''ONE MONTH'', ''1M''), (''1 MONTH'', ''1M''), (''MONTH CHART'', ''1M''), (''MONTHLY'', ''1M'')]"

definition STOCK_TICKERS :: "string list" where
  "STOCK_TICKERS =
    [''AAPL'', ''GOOGL'', ''GOOG'', ''MSFT'', ''AMZN'', ''META'', ''TSLA'', ''NVDA'', ''AMD'', ''INTC'',
     ''NFLX'', ''DIS'', ''BA'', ''JPM'', ''GS'', ''V'', ''MA'', ''WMT'', ''HD'', ''NKE'', ''COST'', ''PEP'',
     ''KO'', ''MCD'', ''SBUX'', ''CVX'', ''XOM'', ''PFE'', ''JNJ'', ''UNH'', ''ABBV'', ''MRK'', ''LLY'',
     ''SPY'', ''QQQ'', ''IWM'', ''DIA'', ''VTI'', ''VOO'', ''ARKK'', ''XLF'', ''XLE'', ''XLK'']"

section \<open>The patterns of the extractor\<close>

text \<open>\<open>([\d,]+(?:\.\d{1,2})?)\<close> and \<open>([\d,]+)\<close> as capture \<open>i\<close>, \<open>\s*\<close>, \<open>\s+\<close>, \<open>\$?\<close>.\<close>

definition rx_money :: "nat \<Rightarrow> regex" where
  "rx_money i = Group i (Seq (rx_plus (Cls [CDigit, CChar CHR '','']))
                            (rx_opt (Seq (Chr CHR ''.'') (Rep 1 (Some 2) rx_digit))))"

definition rx_count :: "nat \<Rightarrow> regex" where
  "rx_count i = Group i (rx_plus (Cls [CDigit, CChar CHR '','']))"

definition ws0 :: regex where "ws0 = rx_star rx_ws"
definition ws1 :: regex where "ws1 = rx_plus rx_ws"
definition dollar_opt :: regex where "dollar_opt = rx_opt (Chr CHR ''$'')"

definition QUOTES :: "string list" where
  "QUOTES = [''USDT'', ''USDC'', ''USD'', ''BUSD'', ''EUR'', ''BTC'', ''ETH'']"

definition buyPatterns :: regex where
  "buyPatterns = rx_seq [WordB,
     Group 1 (rx_words [''BUY'', ''BUYING'', ''BOUGHT'', ''LONG'', ''GOING LONG'', ''OPEN LONG'', ''OPENING LONG'']),
     WordB]"

definition sellPatterns :: regex where
  "sellPatterns = rx_seq [WordB,
     Group 1 (rx_words [''SELL'', ''SELLING'', ''SOLD'', ''SHORT'', ''GOING SHORT'', ''OPEN SHORT'',
                        ''OPENING SHORT'', ''CLOSE'', ''CLOSING'']),
     WordB]"

text \<open>
  \<open>new RegExp(`\\b${indicator.replace(/\./g, '\\.')}\\b`, 'i')\<close>: with its dots escaped,
  every character of an indicator name (letters and spaces) stands for itself.
\<close>

definition indicatorPattern :: "string \<Rightarrow> regex" where
  "indicatorPattern indicator = rx_seq [WordB, rx_str indicator, WordB]"

definition leveragePatterns :: "regex list" where
  "leveragePatterns =
    [rx_seq [Group 1 (rx_plus rx_digit), Chr CHR ''X'', ws0, rx_str ''LEVERAGE''],
     rx_seq [rx_str ''LEVERAGE'', ws0, rx_opt (rx_seq [rx_str ''OF'', ws0]),
             Group 1 (rx_plus rx_digit), rx_opt (Chr CHR ''X'')],
     rx_seq [WordB, rx_words [''WITH'', ''USING''], ws1, Group 1 (rx_plus rx_digit), Chr CHR ''X'', WordB],
     rx_seq [WordB, Group 1 (rx_plus rx_digit), Chr CHR ''X'', ws1,
             rx_words [''LONG'', ''SHORT'', ''POSITION'']]]"

text \<open>\<open>new RegExp(`\\b${cryptoName}(?:\\s+(USDT|USDC|USD|BUSD|EUR|BTC|ETH))?\\b`, 'i')\<close>.\<close>

definition namePattern :: "string \<Rightarrow> regex" where
  "namePattern cryptoName =
     rx_seq [WordB, rx_source cryptoName, rx_opt (rx_seq [ws1, Group 1 (rx_words QUOTES)]), WordB]"

definition quotePattern :: regex where
  "quotePattern = rx_seq [WordB, Group 1 (rx_words [''USDT'', ''USDC'', ''USD'', ''BUSD'', ''EUR'']), WordB]"

definition cryptoPairPatterns :: "regex list" where
  "cryptoPairPatterns =
    [rx_seq [WordB, Group 1 (rx_words CRYPTO_TOKENS), ws0,
             rx_opt (Cls [CChar CHR ''/'', CChar CHR ''-'']), ws0, Group 2 (rx_words QUOTES), WordB],
     rx_seq [WordB, Group 1 (rx_words CRYPTO_TOKENS), Group 2 (rx_words QUOTES), WordB]]"

definition stockPattern :: regex where
  "stockPattern = rx_seq [WordB, Group 1 (rx_words STOCK_TICKERS), WordB]"

definition AZ25 :: regex where
  "AZ25 = Rep 2 (Some 5) (Cls [CRange CHR ''A'' CHR ''Z''])"

definition contextPatterns :: "regex list" where
  "contextPatterns =
    [rx_seq [WordB, Group 1 (rx_words [''BUY'', ''SELL'', ''LONG'', ''SHORT'', ''TRADE'', ''TRADING'']),
             ws1, Group 2 AZ25, WordB],
     rx_seq [WordB, Group 1 AZ25, ws1, rx_words [''AT'', ''@'', ''$'', ''PRICE'']],
     rx_seq [WordB, rx_str ''TICKER'', ws1, Group 1 AZ25, WordB]]"

definition pricePatterns :: "regex list" where
  "pricePatterns =
    [rx_seq [rx_words [''PRICE'', ''ENTRY'', ''ENTER'', ''AT''], ws1,
             rx_opt (rx_seq [rx_str ''OF'', ws1]), rx_opt (rx_seq [rx_str ''IS'', ws1]),
             dollar_opt, ws0, rx_money 1],
     rx_seq [Chr CHR ''$'', ws0, rx_money 1, ws0, rx_opt (rx_words [''EACH'', ''PER'', ''ENTRY''])],
     rx_seq [rx_words [''BUY'', ''SELL'', ''LONG'', ''SHORT''], ws1,
             rx_opt (rx_seq [rx_str ''AT'', ws1]), dollar_opt, ws0, rx_money 1]]"

definition priceExcludeBefore :: regex where
  "priceExcludeBefore =
     rx_seq [rx_alt [rx_seq [rx_str ''STOP'', ws0, rx_str ''LOSS''], rx_str ''SL'', rx_str ''TARGET'',
                     rx_seq [rx_str ''TAKE'', ws0, rx_str ''PROFIT''], rx_str ''TP''],
             WordB]"

definition quantityPatterns :: "regex list" where
  "quantityPatterns =
    [rx_seq [rx_count 1, ws0, rx_words [''SHARES'', ''CONTRACTS'', ''LOTS'', ''UNITS'']],
     rx_seq [rx_words [''BUY'', ''SELL'', ''LONG'', ''SHORT''], ws1, rx_count 1, ws1,
             NegLook (rx_words [''USD'', ''USDT'', ''DOLLAR''])],
     rx_seq [rx_str ''QUANTITY'', ws1, rx_opt (rx_seq [rx_str ''OF'', ws1]), rx_count 1]]"

definition DOLLARS :: regex where
  "DOLLARS = rx_seq [rx_str ''DOLLAR'', rx_opt (Chr CHR ''S'')]"

definition positionSizePatterns :: "regex list" where
  "positionSizePatterns =
    [rx_seq [rx_count 1, ws0, rx_alt [rx_str ''USD'', rx_str ''USDT'', DOLLARS, rx_str ''BUCKS''], ws0,
             rx_opt (rx_words [''POSITION'', ''SIZE'', ''WORTH''])],
     rx_seq [rx_str ''POSITION'', ws0, rx_opt (rx_str ''SIZE''), ws0, rx_opt (rx_seq [rx_str ''OF'', ws0]),
             rx_count 1, ws0, rx_opt (rx_alt [rx_str ''USD'', rx_str ''USDT'', DOLLARS])],
     rx_seq [rx_str ''SIZE'', ws1, rx_opt (rx_seq [rx_str ''OF'', ws1]),
             rx_count 1, ws0, rx_opt (rx_alt [rx_str ''USD'', rx_str ''USDT'', DOLLARS])]]"

definition stopLossPatterns :: "regex list" where
  "stopLossPatterns =
    [rx_seq [rx_str ''STOP'', ws0, rx_str ''LOSS'', ws0, rx_opt (rx_words [''AT'', ''@'', ''IS'', ''OF'']),
             ws0, dollar_opt, ws0, rx_money 1],
     rx_seq [rx_str ''STOP'', ws1, rx_words [''AT'', ''@''], ws0, dollar_opt, ws0, rx_money 1],
     rx_seq [rx_str ''SL'', ws0, rx_opt (rx_words [''AT'', ''@'', ''IS'']), ws0, dollar_opt, ws0, rx_money 1],
     rx_seq [rx_words [''SET'', ''PUT''], ws1, rx_opt (rx_seq [Chr CHR ''A'', ws1]), rx_str ''STOP'', ws1,
             rx_opt (rx_seq [rx_str ''AT'', ws1]), dollar_opt, ws0, rx_money 1]]"

definition takeProfitPatterns :: "regex list" where
  "takeProfitPatterns =
    [rx_seq [rx_alt [rx_seq [rx_str ''TAKE'', ws0, rx_str ''PROFIT''], rx_str ''TP''], ws0,
             rx_opt (rx_words [''AT'', ''@'', ''IS'']), ws0, dollar_opt, ws0, rx_money 1],
     rx_seq [rx_str ''TARGET'', ws0, rx_opt (rx_words [''AT'', ''@'', ''IS'', ''OF'']), ws0, dollar_opt, ws0,
             rx_money 1],
     rx_seq [rx_str ''PROFIT'', ws0, rx_opt (rx_words [''AT'', ''@'']), ws0, dollar_opt, ws0, rx_money 1]]"

definition BREAK_EVEN :: regex where
  "BREAK_EVEN = rx_alt [rx_seq [rx_str ''BREAK'', ws0, rx_str ''EVEN''], rx_str ''BREAKEVEN'',
                        rx_seq [Chr CHR ''B'', ws0, Chr CHR ''E'']]"

definition breakEvenPatterns :: "regex list" where
  "breakEvenPatterns =
    [rx_seq [BREAK_EVEN, ws0, rx_opt (rx_words [''AT'', ''@'', ''IS'']), ws0, dollar_opt, ws0, rx_money 1],
     rx_seq [rx_words [''MOVE'', ''MOVED'', ''MOVING''], ws1, rx_opt (rx_seq [rx_str ''STOP'', ws1]),
             rx_opt (rx_seq [rx_str ''TO'', ws1]), BREAK_EVEN]]"

section \<open>The trade record\<close>

datatype error = TypeError

text \<open>\<open>breakEven\<close> is a price, or \<open>true\<close> for "move to break even" without a price.\<close>

datatype break_even = BENum num | BETrue

text \<open>The object \<open>trade\<close> while it is filled in; \<open>None\<close> is \<open>null\<close>.\<close>

record trade =
  ticker :: "string option"
  action :: "string option"
  quantity :: "num option"
  price :: "num option"
  stopLoss :: "num option"
  takeProfit :: "num option"
  positionSize :: "num option"
  exchange :: "string option"
  timeframe :: "string option"
  indicators :: "string list"
  breakEven :: "break_even option"
  leverage :: "num option"
  tradeType :: "string option"

text \<open>Truthiness of a string-or-null and of a number-or-null.\<close>

definition truthy_str :: "string option \<Rightarrow> bool" where
  "truthy_str v = (case v of None \<Rightarrow> False | Some s \<Rightarrow> s \<noteq> [])"

definition truthy_num :: "num option \<Rightarrow> bool" where
  "truthy_num v = (case v of None \<Rightarrow> False | Some n \<Rightarrow> n \<noteq> 0)"

section \<open>Field detectors\<close>

subsection \<open>Action, exchange, timeframe, indicators, leverage\<close>

definition detect_action :: "string \<Rightarrow> string option \<times> string option" where
  "detect_action text =
     (if js_test buyPatterns text then (Some ''buy'', Some ''long'')
      else if js_test sellPatterns text then (Some ''sell'', Some ''short'')
      else (None, None))"

primrec exchange_loop :: "string list \<Rightarrow> string \<Rightarrow> string option" where
  "exchange_loop [] upperText = None"
| "exchange_loop (ex # es) upperText =
     (if js_includes upperText ex then Some (take 1 ex @ toLowerCase (drop 1 ex))
      else exchange_loop es upperText)"

primrec timeframe_loop :: "(string \<times> string) list \<Rightarrow> string \<Rightarrow> string option" where
  "timeframe_loop [] upperText = None"
| "timeframe_loop (vc # vs) upperText =
     (if js_includes upperText (fst vc) then Some (snd vc) else timeframe_loop vs upperText)"

text \<open>
  \<open>indicator.split(' ')[0]\<close>, then \<open>INDICATOR_CORRECTIONS[name] || name\<close>.
\<close>

definition normalizeIndicator :: "string \<Rightarrow> string" where
  "normalizeIndicator indicator =
     (let normalizedIndicator = takeWhile (\<lambda>c. c \<noteq> CHR '' '') indicator
      in case map_of INDICATOR_CORRECTIONS normalizedIndicator of
           None \<Rightarrow> normalizedIndicator
         | Some c \<Rightarrow> if c \<noteq> [] then c else normalizedIndicator)"

primrec indicator_loop :: "string list \<Rightarrow> string \<Rightarrow> string list \<Rightarrow> string list" where
  "indicator_loop [] text found = found"
| "indicator_loop (indicator # inds) text found =
     indicator_loop inds text
       (if js_test (indicatorPattern indicator) text
        then (let n = normalizeIndicator indicator in if n \<in> set found then found else found @ [n])
        else found)"

primrec leverage_loop :: "regex list \<Rightarrow> string \<Rightarrow> num option" where
  "leverage_loop [] text = None"
| "leverage_loop (pattern # ps) text =
     (case js_match text pattern of
        None \<Rightarrow> leverage_loop ps text
      | Some mt \<Rightarrow>
          (case parseInt (grp mt 1) of
             None \<Rightarrow> leverage_loop ps text
           | Some lev \<Rightarrow> if 1 \<le> lev \<and> lev \<le> 125 then Some lev else leverage_loop ps text))"

subsection \<open>Ticker\<close>

primrec spoken_loop :: "(string \<times> string) list \<Rightarrow> string \<Rightarrow> string option" where
  "spoken_loop [] upperText = None"
| "spoken_loop (sv # svs) upperText =
     (if js_includes upperText (fst sv) then Some (snd sv) else spoken_loop svs upperText)"

text \<open>
  \<open>x.toUpperCase()\<close> on a capture raises a TypeError when the capture is \<open>undefined\<close>.
\<close>

definition upper_of :: "string option \<Rightarrow> error + string" where
  "upper_of c = (case c of None \<Rightarrow> Inl TypeError | Some s \<Rightarrow> Inr (toUpperCase s))"

definition ticker_slash :: "string \<Rightarrow> error + string \<Rightarrow> error + string option" where
  "ticker_slash tk q = (case q of Inl e \<Rightarrow> Inl e | Inr s \<Rightarrow> Inr (Some (tk @ ''/'' @ s)))"

primrec name_loop :: "(string \<times> string) list \<Rightarrow> string \<Rightarrow> error + string option" where
  "name_loop [] upperText = Inr None"
| "name_loop (nt # nts) upperText =
     (case js_match upperText (namePattern (fst nt)) of
        None \<Rightarrow> name_loop nts upperText
      | Some mt \<Rightarrow>
          (if truthy_str (grp mt 1) then ticker_slash (snd nt) (upper_of (grp mt 1))
           else (case js_match upperText quotePattern of
                   Some quoteMatch \<Rightarrow> ticker_slash (snd nt) (upper_of (grp quoteMatch 1))
                 | None \<Rightarrow> Inr (Some (snd nt)))))"

text \<open>A capture inside a template literal: \<open>undefined\<close> prints as the word.\<close>

definition template_of :: "string option \<Rightarrow> string" where
  "template_of c = (case c of None \<Rightarrow> ''undefined'' | Some s \<Rightarrow> s)"

primrec pair_loop :: "regex list \<Rightarrow> string \<Rightarrow> string option" where
  "pair_loop [] upperText = None"
| "pair_loop (pattern # ps) upperText =
     (case js_match upperText pattern of
        None \<Rightarrow> pair_loop ps upperText
      | Some mt \<Rightarrow> Some (toUpperCase (template_of (grp mt 1) @ ''/'' @ template_of (grp mt 2))))"

definition stock_ticker :: "string \<Rightarrow> error + string option" where
  "stock_ticker upperText =
     (case js_match upperText stockPattern of
        None \<Rightarrow> Inr None
      | Some stockMatch \<Rightarrow> map_sum id Some (upper_of (grp stockMatch 1)))"

text \<open>\<open>match[2] || match[1]\<close>.\<close>

definition or_capture :: "string option \<Rightarrow> string option \<Rightarrow> string option" where
  "or_capture a b = (if truthy_str a then a else b)"

primrec context_loop :: "regex list \<Rightarrow> string \<Rightarrow> error + string option" where
  "context_loop [] upperText = Inr None"
| "context_loop (pattern # ps) upperText =
     (case js_match upperText pattern of
        None \<Rightarrow> context_loop ps upperText
      | Some mt \<Rightarrow>
          (case upper_of (or_capture (grp mt 2) (grp mt 1)) of
             Inl e \<Rightarrow> Inl e
           | Inr candidate \<Rightarrow>
               if candidate \<notin> set EXCLUDED_WORDS then Inr (Some candidate)
               else context_loop ps upperText))"

text \<open>
  The cascade: each block of the source is guarded by \<open>if (!trade.ticker)\<close> and runs
  only while the ticker is still falsy; a TypeError raised in a block ends the call.
\<close>

definition detect_ticker :: "string \<Rightarrow> error + string option" where
  "detect_ticker upperText =
     (let tk = spoken_loop SPOKEN_PAIR_VARIANTS upperText
      in case (if \<not> truthy_str tk then name_loop CRYPTO_NAME_TO_TICKER upperText else Inr tk) of
           Inl e \<Rightarrow> Inl e
         | Inr tk \<Rightarrow>
             (let tk = (if \<not> truthy_str tk then pair_loop cryptoPairPatterns upperText else tk)
              in case (if \<not> truthy_str tk then stock_ticker upperText else Inr tk) of
                   Inl e \<Rightarrow> Inl e
                 | Inr tk \<Rightarrow>
                     (if \<not> truthy_str tk then context_loop contextPatterns upperText else Inr tk)))"

subsection \<open>Price, quantity, position size\<close>

primrec price_loop :: "regex list \<Rightarrow> string \<Rightarrow> num option" where
  "price_loop [] text = None"
| "price_loop (pattern # ps) text =
     (case js_match text pattern of
        None \<Rightarrow> price_loop ps text
      | Some mt \<Rightarrow>
          (let beforeText = rev (take 20 (before_match mt))
           in if \<not> js_test priceExcludeBefore beforeText
              then (case parseNumber (grp mt 1) of
                      None \<Rightarrow> price_loop ps text
                    | Some p \<Rightarrow> Some p)
              else price_loop ps text))"

primrec quantity_loop :: "regex list \<Rightarrow> string \<Rightarrow> num option" where
  "quantity_loop [] text = None"
| "quantity_loop (pattern # ps) text =
     (case js_match text pattern of
        None \<Rightarrow> quantity_loop ps text
      | Some mt \<Rightarrow>
          (case parseNumber (grp mt 1) of
             None \<Rightarrow> quantity_loop ps text
           | Some qty \<Rightarrow> if 0 < qty \<and> qty < 1000000 then Some qty else quantity_loop ps text))"

primrec positionSize_loop :: "regex list \<Rightarrow> string \<Rightarrow> num option" where
  "positionSize_loop [] text = None"
| "positionSize_loop (pattern # ps) text =
     (case js_match text pattern of
        None \<Rightarrow> positionSize_loop ps text
      | Some mt \<Rightarrow>
          (case parseNumber (grp mt 1) of
             None \<Rightarrow> positionSize_loop ps text
           | Some sz \<Rightarrow>
               if 10 \<le> sz \<and> sz \<le> 10000000 then Some sz else positionSize_loop ps text))"

subsection \<open>Stop loss, take profit, break even\<close>

primrec normalize_loop :: "string list \<Rightarrow> string \<Rightarrow> string" where
  "normalize_loop [] normalizedText = normalizedText"
| "normalize_loop (variant # vs) normalizedText =
     normalize_loop vs
       (if js_includes normalizedText variant
        then js_replace_all normalizedText (rx_source variant) ''STOP LOSS''
        else normalizedText)"

text \<open>The loop shared by the stop-loss and the take-profit patterns.\<close>

primrec level_loop :: "regex list \<Rightarrow> string \<Rightarrow> num option" where
  "level_loop [] text = None"
| "level_loop (pattern # ps) text =
     (case js_match text pattern of
        None \<Rightarrow> level_loop ps text
      | Some mt \<Rightarrow>
          (case parseNumber (grp mt 1) of
             None \<Rightarrow> level_loop ps text
           | Some v \<Rightarrow> Some v))"

definition detect_stopLoss :: "string \<Rightarrow> num option" where
  "detect_stopLoss upperText = level_loop stopLossPatterns (normalize_loop STOP_LOSS_VARIANTS upperText)"

primrec breakEven_loop :: "regex list \<Rightarrow> string \<Rightarrow> break_even option" where
  "breakEven_loop [] text = None"
| "breakEven_loop (pattern # ps) text =
     (case js_match text pattern of
        None \<Rightarrow> breakEven_loop ps text
      | Some mt \<Rightarrow>
          (if truthy_str (grp mt 1)
           then (case parseNumber (grp mt 1) of
                   None \<Rightarrow> breakEven_loop ps text
                 | Some be \<Rightarrow> Some (BENum be))
           else Some BETrue))"

section \<open>The extractor\<close>

text \<open>All the stages of \<open>extractTradeInfo\<close>, up to the validation.\<close>

definition detect :: "string \<Rightarrow> error + trade" where
  "detect text =
     (let upperText = toUpperCase text
      in case detect_ticker upperText of
           Inl e \<Rightarrow> Inl e
         | Inr tk \<Rightarrow>
             Inr \<lparr> ticker = tk,
                   action = fst (detect_action text),
                   quantity = quantity_loop quantityPatterns text,
                   price = price_loop pricePatterns text,
                   stopLoss = detect_stopLoss upperText,
                   takeProfit = level_loop takeProfitPatterns text,
                   positionSize = positionSize_loop positionSizePatterns text,
                   exchange = exchange_loop EXCHANGES upperText,
                   timeframe = timeframe_loop TIMEFRAME_VARIANTS upperText,
                   indicators = indicator_loop INDICATORS text [],
                   breakEven = breakEven_loop breakEvenPatterns text,
                   leverage = leverage_loop leveragePatterns text,
                   tradeType = snd (detect_action text) \<rparr>)"

text \<open>
  \<open>trade.ticker || trade.action || trade.price || trade.quantity || trade.stopLoss ||
  trade.takeProfit || trade.positionSize\<close>, as the condition of \<open>if (!hasTradeInfo)\<close>.
\<close>

definition hasTradeInfo :: "trade \<Rightarrow> bool" where
  "hasTradeInfo t =
     (truthy_str (ticker t) \<or> truthy_str (action t) \<or> truthy_num (price t) \<or>
      truthy_num (quantity t) \<or> truthy_num (stopLoss t) \<or> truthy_num (takeProfit t) \<or>
      truthy_num (positionSize t))"

text \<open>The values of JavaScript that the extractor receives and returns.\<close>

datatype jsval = JUndefined | JNull | JBool bool | JNum num | JStr string | JArr "string list"

type_synonym jsobject = "(string \<times> jsval) list"

definition js_truthy :: "jsval \<Rightarrow> bool" where
  "js_truthy v =
     (case v of JUndefined \<Rightarrow> False | JNull \<Rightarrow> False | JBool b \<Rightarrow> b | JNum n \<Rightarrow> n \<noteq> 0
      | JStr s \<Rightarrow> s \<noteq> [] | JArr xs \<Rightarrow> True)"

definition js_typeof :: "jsval \<Rightarrow> string" where
  "js_typeof v =
     (case v of JUndefined \<Rightarrow> ''undefined'' | JNull \<Rightarrow> ''object'' | JBool b \<Rightarrow> ''boolean''
      | JNum n \<Rightarrow> ''number'' | JStr s \<Rightarrow> ''string'' | JArr xs \<Rightarrow> ''object'')"

definition str_or_null :: "string option \<Rightarrow> jsval" where
  "str_or_null v = (case v of None \<Rightarrow> JNull | Some s \<Rightarrow> JStr s)"

definition num_or_null :: "num option \<Rightarrow> jsval" where
  "num_or_null v = (case v of None \<Rightarrow> JNull | Some n \<Rightarrow> JNum n)"

definition be_or_null :: "break_even option \<Rightarrow> jsval" where
  "be_or_null v = (case v of None \<Rightarrow> JNull | Some (BENum n) \<Rightarrow> JNum n | Some BETrue \<Rightarrow> JBool True)"

text \<open>The object \<open>trade\<close>, its keys in the order in which the source creates them.\<close>

definition trade_object :: "trade \<Rightarrow> jsobject" where
  "trade_object t =
    [(''ticker'', str_or_null (ticker t)),
     (''action'', str_or_null (action t)),
     (''quantity'', num_or_null (quantity t)),
     (''price'', num_or_null (price t)),
     (''stopLoss'', num_or_null (stopLoss t)),
     (''takeProfit'', num_or_null (takeProfit t)),
     (''positionSize'', num_or_null (positionSize t)),
     (''exchange'', str_or_null (exchange t)),
     (''timeframe'', str_or_null (timeframe t)),
     (''indicators'', JArr (indicators t)),
     (''breakEven'', be_or_null (breakEven t)),
     (''leverage'', num_or_null (leverage t)),
     (''tradeType'', str_or_null (tradeType t))]"

definition delete_key :: "string \<Rightarrow> jsobject \<Rightarrow> jsobject" where
  "delete_key key obj = filter (\<lambda>kv. fst kv \<noteq> key) obj"

text \<open>
  \<open>Object.keys(trade).forEach(key => { if (trade[key] === null || (Array.isArray(trade[key])
  && trade[key].length === 0)) delete trade[key]; })\<close>.
\<close>

definition cleanup_key :: "string \<Rightarrow> jsobject \<Rightarrow> jsobject" where
  "cleanup_key key obj =
     (case map_of obj key of
        None \<Rightarrow> obj
      | Some v \<Rightarrow> if v = JNull \<or> v = JArr [] then delete_key key obj else obj)"

definition cleanup :: "jsobject \<Rightarrow> jsobject" where
  "cleanup obj = fold cleanup_key (map fst obj) obj"

definition extractTradeInfo :: "jsval \<Rightarrow> error + jsobject option" where
  "extractTradeInfo v =
     (if \<not> js_truthy v \<or> js_typeof v \<noteq> ''string'' then Inr None
      else case v of
             JStr text \<Rightarrow>
               (case detect text of
                  Inl e \<Rightarrow> Inl e
                | Inr t \<Rightarrow> if \<not> hasTradeInfo t then Inr None else Inr (Some (cleanup (trade_object t))))
           | _ \<Rightarrow> Inr None)"

section \<open>The summary formatter\<close>

text \<open>
  \<open>generateTradeSummary\<close> accepts any object, and the numbers in it are any JavaScript
  numbers: a record of the source can hold \<open>Infinity\<close> (a price of more than 308 digits).
  The formatter is therefore modelled on a number type of its own: a finite number, given by
  its exact value, or one of \<open>Infinity\<close>, \<open>-Infinity\<close> and \<open>NaN\<close>.
\<close>

datatype jsnumber = Finite rat | PosInf | NegInf | NaN

text \<open>The decimal digits of a non-negative integer, and the same digits in groups of three
  separated by commas (the grouping of the \<open>en-US\<close> locale).\<close>

definition digit_char :: "int \<Rightarrow> char" where
  "digit_char d = ''0123456789'' ! nat d"

function digits_of :: "int \<Rightarrow> string" where
  "digits_of n = (if n < 10 then [digit_char n] else digits_of (n div 10) @ [digit_char (n mod 10)])"
  by pat_completeness auto
termination
  by (relation "measure nat") auto

declare digits_of.simps [simp del]

definition pad3 :: "int \<Rightarrow> string" where
  "pad3 m = [digit_char (m div 100), digit_char (m div 10 mod 10), digit_char (m mod 10)]"

function group3 :: "int \<Rightarrow> string" where
  "group3 n = (if n < 1000 then digits_of n else group3 (n div 1000) @ '','' @ pad3 (n mod 1000))"
  by pat_completeness auto
termination
  by (relation "measure nat") auto

declare group3.simps [simp del]

text \<open>A magnitude rounded to hundredths, halves upwards, as an integer number of hundredths.\<close>

definition hundredths :: "rat \<Rightarrow> int" where
  "hundredths x = \<lfloor>100 * x + 1 / 2\<rfloor>"

text \<open>
  \<open>Number.prototype.toString\<close> of a finite number is taken from the host, as the parameter
  \<open>host\<close>, wherever the model does not print the number itself: for a number that is
  not an integer, and for a magnitude of \<open>2^53\<close> or more (there the host prints the
  shortest digits that read back as the same number, followed by zeros, and from \<open>10^21\<close>
  an exponent). Nothing is assumed about \<open>host\<close>.

  \<open>num.toFixed(2)\<close>: the special values print by name; a magnitude of \<open>10^21\<close> or more
  prints as \<open>toString\<close> prints it; any other number prints with exactly two decimals, the
  nearest number of hundredths, the larger one of two that are equally near.
\<close>

definition toFixed2 :: "(rat \<Rightarrow> string) \<Rightarrow> jsnumber \<Rightarrow> string" where
  "toFixed2 host num =
     (case num of
        NaN \<Rightarrow> ''NaN''
      | PosInf \<Rightarrow> ''Infinity''
      | NegInf \<Rightarrow> ''-Infinity''
      | Finite x \<Rightarrow>
          (let s = (if x < 0 then ''-'' else []); a = \<bar>x\<bar>
           in if 10 ^ 21 \<le> a then s @ host a
              else (let n = hundredths a
                    in s @ digits_of (n div 100) @ ''.'' @
                       [digit_char (n mod 100 div 10), digit_char (n mod 10)])))"

text \<open>The sign for infinity, U+221E, as its three UTF-8 bytes.\<close>

definition INFINITY_SIGN :: string where
  "INFINITY_SIGN = [CHR 0xE2, CHR 0x88, CHR 0x9E]"

text \<open>
  \<open>num.toLocaleString('en-US', {minimumFractionDigits: 0, maximumFractionDigits: 2})\<close>: the
  number rounded to hundredths, its integer digits in groups of three, and its decimals
  without trailing zeros. The model rounds the value of the number itself; a host that rounds
  the shortest decimal form of the number can differ from it in the last digits, not in the
  layout.
\<close>

definition toLocaleString2 :: "jsnumber \<Rightarrow> string" where
  "toLocaleString2 num =
     (case num of
        NaN \<Rightarrow> ''NaN''
      | PosInf \<Rightarrow> INFINITY_SIGN
      | NegInf \<Rightarrow> ''-'' @ INFINITY_SIGN
      | Finite x \<Rightarrow>
          (let n = hundredths \<bar>x\<bar>; f = n mod 100
           in (if x < 0 then ''-'' else []) @ group3 (n div 100) @
              (if f = 0 then [] else if f mod 10 = 0 then [CHR ''.'', digit_char (f div 10)]
               else [CHR ''.'', digit_char (f div 10), digit_char (f mod 10)])))"

text \<open>\<open>num >= 1000\<close>, and \<open>formatNumber\<close> of the source.\<close>

definition ge_1000 :: "jsnumber \<Rightarrow> bool" where
  "ge_1000 num = (case num of Finite x \<Rightarrow> 1000 \<le> x | PosInf \<Rightarrow> True | NegInf \<Rightarrow> False | NaN \<Rightarrow> False)"

definition formatNumber :: "(rat \<Rightarrow> string) \<Rightarrow> jsnumber \<Rightarrow> string" where
  "formatNumber host num = (if ge_1000 num then toLocaleString2 num else toFixed2 host num)"

text \<open>
  A number inside a template literal (\<open>`${trade.quantity} shares`\<close>): an integer of
  magnitude below \<open>2^53\<close> prints as its digits; any other finite number as the host
  prints it.
\<close>

definition number_to_string :: "(rat \<Rightarrow> string) \<Rightarrow> jsnumber \<Rightarrow> string" where
  "number_to_string host num =
     (case num of
        NaN \<Rightarrow> ''NaN''
      | PosInf \<Rightarrow> ''Infinity''
      | NegInf \<Rightarrow> ''-Infinity''
      | Finite x \<Rightarrow>
          if of_int \<lfloor>x\<rfloor> = x \<and> \<bar>x\<bar> < 2 ^ 53
          then (if x < 0 then ''-'' else []) @ digits_of \<bar>\<lfloor>x\<rfloor>\<bar>
          else host x)"

text \<open>Truthiness of a number: \<open>0\<close> and \<open>NaN\<close> are falsy.\<close>

definition number_truthy :: "jsnumber \<Rightarrow> bool" where
  "number_truthy num = (case num of Finite x \<Rightarrow> x \<noteq> 0 | PosInf \<Rightarrow> True | NegInf \<Rightarrow> True | NaN \<Rightarrow> False)"

text \<open>\<open>Array.prototype.join\<close>.\<close>

primrec js_join :: "string \<Rightarrow> string list \<Rightarrow> string" where
  "js_join sep [] = []"
| "js_join sep (x # xs) = (if xs = [] then x else x @ sep @ js_join sep xs)"

text \<open>The bullet U+2022 that separates the extras, as its three UTF-8 bytes.\<close>

definition BULLET :: string where
  "BULLET = [CHR 0xE2, CHR 0x80, CHR 0xA2]"

text \<open>
  The argument of \<open>generateTradeSummary\<close>: the fields it reads, \<open>None\<close> when the field is
  absent. \<open>breakEven\<close> is a number or \<open>true\<close>.
\<close>

datatype summary_break_even = BreakAt jsnumber | BreakTrue

record summary_trade =
  s_ticker :: "string option"
  s_action :: "string option"
  s_quantity :: "jsnumber option"
  s_price :: "jsnumber option"
  s_stopLoss :: "jsnumber option"
  s_takeProfit :: "jsnumber option"
  s_positionSize :: "jsnumber option"
  s_exchange :: "string option"
  s_timeframe :: "string option"
  s_indicators :: "string list"
  s_breakEven :: "summary_break_even option"
  s_leverage :: "jsnumber option"
  s_tradeType :: "string option"

text \<open>
  \<open>if (trade.x) parts.push(...)\<close>: a part is pushed when the field is truthy.
\<close>

definition str_part :: "string option \<Rightarrow> (string \<Rightarrow> string) \<Rightarrow> string list" where
  "str_part v f = (case v of None \<Rightarrow> [] | Some s \<Rightarrow> if s \<noteq> [] then [f s] else [])"

definition num_part :: "jsnumber option \<Rightarrow> (jsnumber \<Rightarrow> string) \<Rightarrow> string list" where
  "num_part v f = (case v of None \<Rightarrow> [] | Some n \<Rightarrow> if number_truthy n then [f n] else [])"

text \<open>The action and the ticker, the extras, and \<open>generateTradeSummary\<close> of the source.\<close>

definition main_part :: "summary_trade \<Rightarrow> string list" where
  "main_part t =
     (if truthy_str (s_action t) \<and> truthy_str (s_ticker t) then
        (let actionText = (if s_action t = Some ''buy'' then ''Buy'' else ''Sell'');
             actionText = (if truthy_str (s_tradeType t)
                           then (if s_tradeType t = Some ''long'' then ''Long'' else ''Short'')
                           else actionText)
         in str_part (s_ticker t) (\<lambda>tk. actionText @ '' '' @ tk))
      else if truthy_str (s_ticker t) then str_part (s_ticker t) (\<lambda>tk. ''Trade '' @ tk)
      else if truthy_str (s_action t) then [if s_action t = Some ''buy'' then ''Buy'' else ''Sell'']
      else [])"

definition extras :: "(rat \<Rightarrow> string) \<Rightarrow> summary_trade \<Rightarrow> string list" where
  "extras host t =
     num_part (s_stopLoss t) (\<lambda>n. ''Stop loss: $'' @ formatNumber host n) @
     num_part (s_takeProfit t) (\<lambda>n. ''Target: $'' @ formatNumber host n) @
     (case s_breakEven t of
        None \<Rightarrow> []
      | Some (BreakAt be) \<Rightarrow> [''Break even: $'' @ formatNumber host be]
      | Some BreakTrue \<Rightarrow> [''Move to break even'']) @
     (if s_indicators t \<noteq> [] then [''Indicators: '' @ js_join '', '' (s_indicators t)] else [])"

definition generateTradeSummary :: "(rat \<Rightarrow> string) \<Rightarrow> summary_trade \<Rightarrow> string" where
  "generateTradeSummary host t =
     js_join '' ''
       (main_part t @
        str_part (s_exchange t) (\<lambda>e. ''on '' @ e) @
        str_part (s_timeframe t) (\<lambda>tf. ''('' @ tf @ '')'') @
        num_part (s_quantity t) (\<lambda>n. number_to_string host n @ '' shares'') @
        num_part (s_positionSize t) (\<lambda>n. ''$'' @ formatNumber host n @ '' position'') @
        num_part (s_leverage t) (\<lambda>n. number_to_string host n @ ''x'') @
        num_part (s_price t) (\<lambda>n. ''at $'' @ formatNumber host n) @
        (if extras host t \<noteq> []
         then [BULLET @ '' '' @ js_join ('' '' @ BULLET @ '' '') (extras host t)] else []))"

text \<open>
  A stand-in for the host's printer in the examples, none of which reaches it.
\<close>

definition host_unused :: "rat \<Rightarrow> string" where
  "host_unused x = ''?''"

section \<open>Notions used in the proofs\<close>

text \<open>
  \<open>sets_group i r\<close>: by the shape of \<open>r\<close> alone, every match of \<open>r\<close> defines capture \<open>i\<close>.
\<close>

primrec sets_group :: "nat \<Rightarrow> regex \<Rightarrow> bool" where
  "sets_group i (Chr c) = False"
| "sets_group i (Cls cs) = False"
| "sets_group i Dot = False"
| "sets_group i Eps = False"
| "sets_group i (Seq a b) = ((sets_group i a \<and> i \<notin> set (groups b)) \<or> sets_group i b)"
| "sets_group i (Alt a b) = (sets_group i a \<and> sets_group i b)"
| "sets_group i (Rep mn mx r) = False"
| "sets_group i (Group j r) = (j = i \<or> sets_group i r)"
| "sets_group i WordB = False"
| "sets_group i (NegLook r) = False"

text \<open>The values that the final clean-up keeps: neither \<open>null\<close> nor an empty array.\<close>

definition kept :: "jsval \<Rightarrow> bool" where
  "kept v = (v \<noteq> JNull \<and> v \<noteq> JArr [])"

text \<open>
  The indicator vocabulary, grouped by the name each entry is normalised to: the entries
  of a group are neighbours in \<open>INDICATORS\<close>.
\<close>

definition INDICATOR_BLOCKS :: "(string \<times> string list) list" where
  "INDICATOR_BLOCKS =
    [(''RSI'', [''RSI'']), (''MACD'', [''MACD'', ''MHCD'', ''MCD'']), (''MAC'', [''MAC D'']),
     (''EMA'', [''EMA'']), (''SMA'', [''SMA'']), (''VWAP'', [''VWAP'']), (''ATR'', [''ATR'']),
     (''BOLLINGER'', [''BOLLINGER'', ''BOLLINGER BANDS'']), (''STOCHASTIC'', [''STOCHASTIC'']),
     (''FIBONACCI'', [''FIBONACCI'']), (''ICHIMOKU'', [''ICHIMOKU'']), (''ADX'', [''ADX'']),
     (''CCI'', [''CCI'']), (''WILLIAMS'', [''WILLIAMS''])]"



section \<open>Character tables\<close>

lemma is_digit_iff: "is_digit c \<longleftrightarrow> c \<in> set ''0123456789''"
  apply (cases c)
  apply (simp only: is_digit.simps set_simps insert_iff empty_iff char.inject simp_thms)
  apply argo
  done

lemma is_lower_iff: "is_lower c \<longleftrightarrow> c \<in> set ''abcdefghijklmnopqrstuvwxyz''"
  apply (cases c)
  apply (simp only: is_lower.simps low5_letter.simps set_simps insert_iff empty_iff char.inject simp_thms)
  apply argo
  done

lemma is_upper_iff: "is_upper c \<longleftrightarrow> c \<in> set ''ABCDEFGHIJKLMNOPQRSTUVWXYZ''"
  apply (cases c)
  apply (simp only: is_upper.simps low5_letter.simps set_simps insert_iff empty_iff char.inject simp_thms)
  apply argo
  done

lemma toUpperCase_alphabet:
  "toUpperCase ''abcdefghijklmnopqrstuvwxyz'' = ''ABCDEFGHIJKLMNOPQRSTUVWXYZ''"
  by (simp add: toUpperCase_def)

lemma toLowerCase_alphabet:
  "toLowerCase ''ABCDEFGHIJKLMNOPQRSTUVWXYZ'' = ''abcdefghijklmnopqrstuvwxyz''"
  by (simp add: toLowerCase_def)

lemma to_upper_char_other: "\<not> is_lower c \<Longrightarrow> to_upper_char c = c"
  by (cases c) simp

lemma to_lower_char_other: "\<not> is_upper c \<Longrightarrow> to_lower_char c = c"
  by (cases c) simp

section \<open>Captures of a match\<close>

lemma step_if_caps: "s' \<in> set (step_if p s) \<Longrightarrow> caps s' = caps s"
  by (auto simp: step_if_def split: list.splits if_splits)

lemma rep_opt_keep:
  assumes f: "\<And>s s'. s' \<in> set (f s) \<Longrightarrow> caps s' i = caps s i"
  shows "s' \<in> set (rep_opt f mx fuel s) \<Longrightarrow> caps s' i = caps s i"
proof (induction fuel arbitrary: mx s)
  case Nil
  then show ?case by simp
next
  case (Cons c fuel)
  then show ?case
    by (auto split: if_splits dest: f)
qed

lemma rep_min_keep:
  assumes f: "\<And>s s'. s' \<in> set (f s) \<Longrightarrow> caps s' i = caps s i"
  shows "s' \<in> set (rep_min f n mx s) \<Longrightarrow> caps s' i = caps s i"
proof (induction n arbitrary: mx s)
  case 0
  then show ?case using rep_opt_keep [of f i] f by simp
next
  case (Suc n)
  then show ?case
    by (auto split: if_splits dest: f)
qed

lemma rx_match_keep:
  "i \<notin> set (groups r) \<Longrightarrow> s' \<in> set (rx_match r s) \<Longrightarrow> caps s' i = caps s i"
proof (induction r arbitrary: s s')
  case (Rep mn mx r)
  have "\<And>s s'. s' \<in> set (rx_match r (clear_caps (groups r) s)) \<Longrightarrow> caps s' i = caps s i"
    using Rep.IH Rep.prems(1) by (fastforce simp: clear_caps_def)
  from rep_min_keep [of "\<lambda>s. rx_match r (clear_caps (groups r) s)" i, OF this] Rep.prems(2)
  show ?case by simp
qed (auto simp: step_if_caps split: if_splits)

lemma rx_match_sets:
  "sets_group i r \<Longrightarrow> s' \<in> set (rx_match r s) \<Longrightarrow> caps s' i \<noteq> None"
proof (induction r arbitrary: s s')
  case (Seq a b)
  from Seq.prems(2) obtain s1 where s1: "s1 \<in> set (rx_match a s)" "s' \<in> set (rx_match b s1)"
    by auto
  show ?case
  proof (cases "sets_group i b")
    case True
    then show ?thesis using Seq.IH(2) s1 by blast
  next
    case False
    with Seq.prems(1) have "sets_group i a" "i \<notin> set (groups b)" by auto
    then show ?thesis using Seq.IH(1) s1 rx_match_keep by metis
  qed
qed auto

lemma rx_search_match:
  "rx_search r b a = Some (s0, s1) \<Longrightarrow> s1 \<in> set (rx_match r s0)"
  by (induction a arbitrary: b) (auto split: list.splits)

lemma js_match_sets:
  "js_match text r = Some mt \<Longrightarrow> sets_group i r \<Longrightarrow> grp mt i \<noteq> None"
  using rx_search_match [of r "[]" "text" "fst mt" "snd mt"] rx_match_sets [of i r "snd mt" "fst mt"]
  by (simp add: js_match_def grp_def)

lemma rep_opt_rel:
  assumes refl: "\<And>s. R s s" and trans: "\<And>a b c. R a b \<Longrightarrow> R b c \<Longrightarrow> R a c"
    and f: "\<And>s s'. s' \<in> set (f s) \<Longrightarrow> R s s'"
  shows "s' \<in> set (rep_opt f mx fuel s) \<Longrightarrow> R s s'"
proof (induction fuel arbitrary: mx s)
  case Nil
  then show ?case using refl by simp
next
  case (Cons c fuel)
  show ?case
  proof (cases "s' = s")
    case True
    then show ?thesis using refl by simp
  next
    case False
    with Cons.prems obtain s1 where "s1 \<in> set (f s)" "s' \<in> set (rep_opt f (dec_max mx) fuel s1)"
      by (auto split: if_splits)
    then show ?thesis using f Cons.IH trans by blast
  qed
qed

lemma rep_min_rel:
  assumes refl: "\<And>s. R s s" and trans: "\<And>a b c. R a b \<Longrightarrow> R b c \<Longrightarrow> R a c"
    and f: "\<And>s s'. s' \<in> set (f s) \<Longrightarrow> R s s'"
  shows "s' \<in> set (rep_min f n mx s) \<Longrightarrow> R s s'"
proof (induction n arbitrary: mx s)
  case 0
  then show ?case using rep_opt_rel [of R f s' mx "rest s" s, OF refl trans f] by simp
next
  case (Suc n)
  show ?case
  proof (cases "mx = Some 0")
    case True
    then show ?thesis using Suc.prems refl by simp
  next
    case False
    with Suc.prems obtain s1 where "s1 \<in> set (f s)" "s' \<in> set (rep_min f n (dec_max mx) s1)"
      by auto
    then show ?thesis using f Suc.IH trans by blast
  qed
qed

lemma step_if_rest: "s' \<in> set (step_if p s) \<Longrightarrow> \<exists>c. rest s = c # rest s'"
  by (cases "rest s") (auto simp: step_if_def split: if_splits)

lemma rx_match_suffix: "s' \<in> set (rx_match r s) \<Longrightarrow> suffix (rest s') (rest s)"
proof (induction r arbitrary: s s')
  case (Seq a b)
  from Seq.prems obtain s1 where s1: "s1 \<in> set (rx_match a s)" "s' \<in> set (rx_match b s1)"
    by auto
  have "suffix (rest s') (rest s1)" "suffix (rest s1) (rest s)"
    using Seq.IH s1 by blast+
  then show ?case by (rule suffix_order.trans)
next
  case (Rep mn mx r)
  have f: "\<And>s s'. s' \<in> set (rx_match r (clear_caps (groups r) s)) \<Longrightarrow> suffix (rest s') (rest s)"
    using Rep.IH by (fastforce simp: clear_caps_def)
  show ?case
    using rep_min_rel [of "\<lambda>s s'. suffix (rest s') (rest s)" "\<lambda>s. rx_match r (clear_caps (groups r) s)" s' mn mx s]
      f Rep.prems suffix_order.order_trans by auto
qed (auto dest!: step_if_rest simp: suffix_def split: if_splits)

lemma suffix_shorter: "suffix xs ys \<Longrightarrow> xs \<noteq> ys \<Longrightarrow> length xs < length ys"
  by (auto simp: suffix_def)

text \<open>The optional iterations never run out of fuel: more fuel gives the same matches.\<close>

lemma rep_opt_fuel:
  assumes f: "\<And>s s'. s' \<in> set (f s) \<Longrightarrow> suffix (rest s') (rest s)"
  shows "length (rest s) \<le> length fuel \<Longrightarrow> length (rest s) \<le> length fuel' \<Longrightarrow>
         rep_opt f mx fuel s = rep_opt f mx fuel' s"
proof (induction fuel arbitrary: fuel' mx s)
  case Nil
  then have e: "rest s = []" by simp
  show ?case
  proof (cases fuel')
    case Nil
    then show ?thesis by simp
  next
    case (Cons c fs)
    have "\<And>s'. s' \<in> set (f s) \<Longrightarrow> rest s' = rest s" using f e by fastforce
    then have "concat (map (\<lambda>s'. if rest s' = rest s then [] else rep_opt f (dec_max mx) fs s') (f s)) = []"
      by simp
    then show ?thesis using Cons by simp
  qed
next
  case (Cons c fs)
  note IH = Cons.IH and P = Cons.prems
  show ?case
  proof (cases fuel')
    case Nil
    then have e: "rest s = []" using P by simp
    have "\<And>s'. s' \<in> set (f s) \<Longrightarrow> rest s' = rest s" using f e by fastforce
    then have "concat (map (\<lambda>s'. if rest s' = rest s then [] else rep_opt f (dec_max mx) fs s') (f s)) = []"
      by simp
    then show ?thesis using Nil by simp
  next
    case (Cons c' fs')
    have "(if rest s' = rest s then [] else rep_opt f (dec_max mx) fs s')
        = (if rest s' = rest s then [] else rep_opt f (dec_max mx) fs' s')" if "s' \<in> set (f s)" for s'
    proof (cases "rest s' = rest s")
      case True
      then show ?thesis by simp
    next
      case False
      then have "length (rest s') < length (rest s)" using f [OF that] by (simp add: suffix_shorter)
      then have "length (rest s') \<le> length fs" "length (rest s') \<le> length fs'"
        using P Cons by simp_all
      then have "rep_opt f (dec_max mx) fs s' = rep_opt f (dec_max mx) fs' s'" by (rule IH)
      then show ?thesis by simp
    qed
    then have "map (\<lambda>s'. if rest s' = rest s then [] else rep_opt f (dec_max mx) fs s') (f s)
             = map (\<lambda>s'. if rest s' = rest s then [] else rep_opt f (dec_max mx) fs' s') (f s)"
      by (intro map_cong) simp_all
    then show ?thesis unfolding Cons rep_opt.simps
      by (rule arg_cong [where f = "\<lambda>x. if mx = Some 0 then [s] else concat x @ [s]"])
  qed
qed

lemma rx_star_fuel:
  "length (rest s) \<le> length fuel \<Longrightarrow>
   rep_opt (\<lambda>s. rx_match r (clear_caps (groups r) s)) mx fuel s =
   rep_opt (\<lambda>s. rx_match r (clear_caps (groups r) s)) mx (rest s) s"
proof -
  have "\<And>s s'. s' \<in> set (rx_match r (clear_caps (groups r) s)) \<Longrightarrow> suffix (rest s') (rest s)"
    using rx_match_suffix by (fastforce simp: clear_caps_def)
  then show "length (rest s) \<le> length fuel \<Longrightarrow> ?thesis"
    by (intro rep_opt_fuel) simp_all
qed







section \<open>The extractor raises no error\<close>

lemma sets_group_quotePattern: "sets_group 1 quotePattern"
  by code_simp

lemma sets_group_stockPattern: "sets_group 1 stockPattern"
  by code_simp

lemma sets_group_contextPatterns: "list_all (sets_group 1) contextPatterns"
  by code_simp

lemma upper_of_Some: "c \<noteq> None \<Longrightarrow> \<not> isl (upper_of c)"
  by (auto simp: upper_of_def)

lemma ticker_slash_ok: "\<not> isl q \<Longrightarrow> \<not> isl (ticker_slash tk q)"
  by (cases q) (auto simp: ticker_slash_def)

lemma name_loop_ok: "\<not> isl (name_loop nts upperText)"
proof (induction nts)
  case Nil
  show ?case by simp
next
  case (Cons nt nts)
  show ?case
  proof (cases "js_match upperText (namePattern (fst nt))")
    case None
    then show ?thesis using Cons by simp
  next
    case (Some mt)
    show ?thesis
    proof (cases "truthy_str (grp mt 1)")
      case True
      then have "grp mt 1 \<noteq> None" by (auto simp: truthy_str_def split: option.splits)
      then show ?thesis using Some True by (simp add: ticker_slash_ok upper_of_Some)
    next
      case False
      show ?thesis
      proof (cases "js_match upperText quotePattern")
        case None
        then show ?thesis using Some False by simp
      next
        case (Some quoteMatch)
        from js_match_sets [OF this sets_group_quotePattern]
        have "\<not> isl (ticker_slash (snd nt) (upper_of (grp quoteMatch 1)))"
          by (intro ticker_slash_ok upper_of_Some)
        then show ?thesis using \<open>js_match upperText (namePattern (fst nt)) = Some mt\<close> False Some
          by simp
      qed
    qed
  qed
qed

lemma stock_ticker_ok: "\<not> isl (stock_ticker upperText)"
proof (cases "js_match upperText stockPattern")
  case None
  then show ?thesis by (simp add: stock_ticker_def)
next
  case (Some mt)
  from js_match_sets [OF Some sets_group_stockPattern] obtain g where "grp mt 1 = Some g" by auto
  then show ?thesis using Some by (simp add: stock_ticker_def upper_of_def)
qed

lemma or_capture_Some: "b \<noteq> None \<Longrightarrow> or_capture a b \<noteq> None"
  by (auto simp: or_capture_def truthy_str_def split: option.splits)

lemma context_loop_ok: "list_all (sets_group 1) ps \<Longrightarrow> \<not> isl (context_loop ps upperText)"
proof (induction ps)
  case Nil
  show ?case by simp
next
  case (Cons p ps)
  show ?case
  proof (cases "js_match upperText p")
    case None
    then show ?thesis using Cons by simp
  next
    case (Some mt)
    from Cons.prems have "sets_group 1 p" by simp
    from js_match_sets [OF Some this] have "or_capture (grp mt 2) (grp mt 1) \<noteq> None"
      by (rule or_capture_Some)
    then obtain g where "or_capture (grp mt 2) (grp mt 1) = Some g" by auto
    then show ?thesis using Some Cons by (simp add: upper_of_def)
  qed
qed

lemma detect_ticker_ok: "\<not> isl (detect_ticker upperText)"
  using name_loop_ok [of CRYPTO_NAME_TO_TICKER upperText] stock_ticker_ok [of upperText]
    context_loop_ok [OF sets_group_contextPatterns, of upperText]
  by (auto simp: detect_ticker_def Let_def split: sum.splits if_splits)

lemma detect_ok: "\<not> isl (detect s)"
  using detect_ticker_ok [of "toUpperCase s"]
  by (auto simp: detect_def Let_def split: sum.splits)

lemma extract_ok: "\<not> isl (extractTradeInfo v)"
proof (cases v)
  case (JStr s)
  then show ?thesis using detect_ok [of s]
    by (cases "detect s") (auto simp: extractTradeInfo_def)
qed (auto simp: extractTradeInfo_def)

text \<open>
  Claim C2. For an input that is not a string, or is the empty string, the extractor returns
  \<open>null\<close>; and for every input it returns a value and raises no error. (Every function of
  the embedding is total, so the call ends; the only operation of the source that can raise,
  \<open>toUpperCase\<close> on an undefined capture, is modelled by \<open>Inl TypeError\<close>.)
\<close>

theorem extract_never_raises:
  "\<not> isl (extractTradeInfo v) \<and>
   (js_typeof v \<noteq> ''string'' \<or> v = JStr [] \<longrightarrow> extractTradeInfo v = Inr None)"
  using extract_ok [of v] by (auto simp: extractTradeInfo_def js_truthy_def)

lemma extract_buy_aapl:
  "extractTradeInfo (JStr ''Buy AAPL'') =
     Inr (Some [(''ticker'', JStr ''AAPL''), (''action'', JStr ''buy''), (''tradeType'', JStr ''long'')])"
  by code_simp

theorem extract_never_raises_witness:
  "js_typeof JNull \<noteq> ''string'' \<and> extractTradeInfo JNull = Inr None \<and>
   js_typeof (JNum 7) \<noteq> ''string'' \<and> extractTradeInfo (JNum 7) = Inr None \<and>
   extractTradeInfo (JStr []) = Inr None \<and>
   \<not> isl (extractTradeInfo (JStr ''Buy AAPL''))"
  using extract_never_raises [of JNull] extract_never_raises [of "JNum 7"]
    extract_never_raises [of "JStr []"] extract_never_raises [of "JStr ''Buy AAPL''"]
  by (simp add: js_typeof_def)

section \<open>The clean-up\<close>

lemma cleanup_key_filter:
  assumes "distinct (map fst obj)"
  shows "cleanup_key key obj = filter (\<lambda>kv. fst kv = key \<longrightarrow> kept (snd kv)) obj"
proof (cases "map_of obj key")
  case None
  then have "\<forall>kv \<in> set obj. fst kv \<noteq> key"
    by (metis (no_types, lifting) domIff fst_conv image_eqI dom_map_of_conv_image_fst)
  then have "filter (\<lambda>kv. fst kv = key \<longrightarrow> kept (snd kv)) obj = obj"
    by (simp add: filter_id_conv)
  then show ?thesis using None by (simp add: cleanup_key_def)
next
  case (Some v)
  have uniq: "\<And>kv. kv \<in> set obj \<Longrightarrow> fst kv = key \<Longrightarrow> snd kv = v"
    using Some assms by (metis map_of_is_SomeI option.inject prod.collapse)
  show ?thesis
  proof (cases "kept v")
    case True
    have "filter (\<lambda>kv. fst kv = key \<longrightarrow> kept (snd kv)) obj = obj"
      using uniq True by (auto simp: filter_id_conv)
    then show ?thesis using Some True by (simp add: cleanup_key_def kept_def)
  next
    case False
    have "filter (\<lambda>kv. fst kv = key \<longrightarrow> kept (snd kv)) obj = filter (\<lambda>kv. fst kv \<noteq> key) obj"
      using uniq False by (intro filter_cong) auto
    then show ?thesis using Some False by (auto simp: cleanup_key_def kept_def delete_key_def)
  qed
qed

lemma fold_cleanup_key:
  "distinct (map fst obj) \<Longrightarrow>
   fold cleanup_key ks obj = filter (\<lambda>kv. fst kv \<in> set ks \<longrightarrow> kept (snd kv)) obj"
proof (induction ks arbitrary: obj)
  case Nil
  show ?case by simp
next
  case (Cons k ks)
  let ?o = "filter (\<lambda>kv. fst kv = k \<longrightarrow> kept (snd kv)) obj"
  have d: "distinct (map fst ?o)" using Cons.prems by (rule distinct_map_filter)
  have "fold cleanup_key (k # ks) obj = fold cleanup_key ks ?o"
    using Cons.prems by (simp add: cleanup_key_filter)
  also have "\<dots> = filter (\<lambda>kv. fst kv \<in> set ks \<longrightarrow> kept (snd kv)) ?o"
    using Cons.IH [OF d] .
  also have "\<dots> = filter (\<lambda>kv. fst kv \<in> set (k # ks) \<longrightarrow> kept (snd kv)) obj"
    by (auto intro: filter_cong)
  finally show ?case .
qed

lemma cleanup_filter:
  "distinct (map fst obj) \<Longrightarrow> cleanup obj = filter (\<lambda>kv. kept (snd kv)) obj"
  unfolding cleanup_def by (simp add: fold_cleanup_key cong: filter_cong)

lemma distinct_trade_object: "distinct (map fst (trade_object t))"
  by (simp add: trade_object_def)

lemma extract_Some:
  "extractTradeInfo v = Inr (Some obj) \<Longrightarrow>
   \<exists>s t. v = JStr s \<and> detect s = Inr t \<and> hasTradeInfo t \<and>
         obj = filter (\<lambda>kv. kept (snd kv)) (trade_object t)"
  by (auto simp: extractTradeInfo_def cleanup_filter distinct_trade_object
      split: if_splits jsval.splits sum.splits)

text \<open>
  Claim C8. A record returned by the extractor has no field whose value is \<open>null\<close> and no
  empty array: the fields that are still \<open>null\<close> or empty are deleted before it is returned
  (and no key occurs twice).
\<close>

theorem sparse_record:
  "extractTradeInfo v = Inr (Some obj) \<Longrightarrow>
   list_all (\<lambda>kv. snd kv \<noteq> JNull \<and> snd kv \<noteq> JArr []) obj \<and> distinct (map fst obj)"
proof -
  assume "extractTradeInfo v = Inr (Some obj)"
  then obtain s t where o: "obj = filter (\<lambda>kv. kept (snd kv)) (trade_object t)"
    using extract_Some by blast
  show ?thesis
    unfolding o using distinct_trade_object [of t]
    by (simp add: list_all_iff kept_def distinct_map_filter)
qed

theorem sparse_record_witness:
  "extractTradeInfo (JStr ''Buy AAPL'') =
     Inr (Some [(''ticker'', JStr ''AAPL''), (''action'', JStr ''buy''), (''tradeType'', JStr ''long'')])
   \<and> list_all (\<lambda>kv. snd kv \<noteq> JNull \<and> snd kv \<noteq> JArr [])
        [(''ticker'', JStr ''AAPL''), (''action'', JStr ''buy''), (''tradeType'', JStr ''long'')]"
  using sparse_record [OF extract_buy_aapl] extract_buy_aapl by simp

section \<open>The validity gate\<close>

lemma extract_null_iff:
  "detect s = Inr t \<Longrightarrow> s \<noteq> [] \<Longrightarrow> (extractTradeInfo (JStr s) = Inr None) = (\<not> hasTradeInfo t)"
  by (simp add: extractTradeInfo_def js_truthy_def js_typeof_def)

lemma detect_empty: "map_sum id hasTradeInfo (detect []) = Inr False"
  by code_simp

lemma extract_weather: "extractTradeInfo (JStr ''The weather is nice'') = Inr None"
  by code_simp

lemma falsy_str: "(\<not> truthy_str v) = (v = None \<or> v = Some [])"
  by (cases v) (auto simp: truthy_str_def)

lemma falsy_num: "(\<not> truthy_num v) = (v = None \<or> v = Some 0)"
  by (cases v) (auto simp: truthy_num_def)

text \<open>
  Claim C5, as the code has it. The extractor returns \<open>null\<close> exactly when none of the seven
  fields ticker, action, price, quantity, stopLoss, takeProfit, positionSize holds a truthy
  value: each string field is undetected (or empty) and each numeric field is undetected or
  zero. An exchange, a timeframe, an indicator, a leverage or a break-even alone is not
  enough. "The weather is nice" yields \<open>null\<close>.
\<close>

theorem null_iff_nothing_truthy:
  "(detect s = Inr t \<longrightarrow>
      (extractTradeInfo (JStr s) = Inr None) =
        ((ticker t = None \<or> ticker t = Some []) \<and> (action t = None \<or> action t = Some []) \<and>
         (price t = None \<or> price t = Some 0) \<and> (quantity t = None \<or> quantity t = Some 0) \<and>
         (stopLoss t = None \<or> stopLoss t = Some 0) \<and> (takeProfit t = None \<or> takeProfit t = Some 0) \<and>
         (positionSize t = None \<or> positionSize t = Some 0)))
   \<and> extractTradeInfo (JStr ''The weather is nice'') = Inr None"
proof (cases "s = []")
  case True
  have "extractTradeInfo (JStr []) = Inr None"
    by (simp add: extractTradeInfo_def js_truthy_def)
  moreover have "detect [] = Inr t \<Longrightarrow> \<not> hasTradeInfo t"
    using detect_empty by (cases "detect []") auto
  ultimately show ?thesis
    using True extract_weather by (auto simp: hasTradeInfo_def falsy_str falsy_num)
next
  case False
  then show ?thesis
    using extract_null_iff [of s t] extract_weather
    by (auto simp: hasTradeInfo_def falsy_str falsy_num)
qed

lemma detect_context_only:
  "detect ''Binance 4-hour chart RSI 10x leverage move stop to break even'' =
     Inr \<lparr> ticker = None, action = None, quantity = None, price = None, stopLoss = None,
           takeProfit = None, positionSize = None, exchange = Some ''Binance'',
           timeframe = Some ''4h'', indicators = [''RSI''], breakEven = Some BETrue,
           leverage = Some 10, tradeType = None \<rparr>"
  by code_simp

theorem null_iff_nothing_truthy_witness:
  "detect ''Binance 4-hour chart RSI 10x leverage move stop to break even'' =
     Inr \<lparr> ticker = None, action = None, quantity = None, price = None, stopLoss = None,
           takeProfit = None, positionSize = None, exchange = Some ''Binance'',
           timeframe = Some ''4h'', indicators = [''RSI''], breakEven = Some BETrue,
           leverage = Some 10, tradeType = None \<rparr>
   \<and> extractTradeInfo (JStr ''Binance 4-hour chart RSI 10x leverage move stop to break even'') = Inr None"
  using null_iff_nothing_truthy [of "''Binance 4-hour chart RSI 10x leverage move stop to break even''",
      THEN conjunct1, rule_format, OF detect_context_only] detect_context_only
  by simp

text \<open>
  Claim C5 as stated fails: in "stop loss at 0" the stop loss is detected, with value 0, and
  the extractor returns \<open>null\<close>.
\<close>

theorem detected_zero_counterexample:
  "map_sum id stopLoss (detect ''stop loss at 0'') = Inr (Some 0)
   \<and> extractTradeInfo (JStr ''stop loss at 0'') = Inr None"
  by code_simp

lemma detect_price_zero:
  "detect ''price is 0'' =
     Inr \<lparr> ticker = None, action = None, quantity = None, price = Some 0, stopLoss = None,
           takeProfit = None, positionSize = None, exchange = None,
           timeframe = None, indicators = [], breakEven = None,
           leverage = None, tradeType = None \<rparr>"
  by code_simp

text \<open>
  Claim C10. A detected value of exactly 0 does not pass the validity gate: when the ticker,
  the action, the quantity and the position size are undetected and each of price, stop loss
  and take profit is undetected or 0, the extractor returns \<open>null\<close>. "price is 0" is such an
  input: the price pattern matches and the price is 0.
\<close>

theorem zero_fails_gate:
  "detect s = Inr t \<Longrightarrow> ticker t = None \<Longrightarrow> action t = None \<Longrightarrow> quantity t = None \<Longrightarrow>
   positionSize t = None \<Longrightarrow> price t = None \<or> price t = Some 0 \<Longrightarrow>
   stopLoss t = None \<or> stopLoss t = Some 0 \<Longrightarrow> takeProfit t = None \<or> takeProfit t = Some 0 \<Longrightarrow>
   extractTradeInfo (JStr s) = Inr None"
  by (cases "s = []")
     (auto simp: extractTradeInfo_def js_truthy_def js_typeof_def hasTradeInfo_def truthy_str_def truthy_num_def)

theorem zero_fails_gate_witness:
  "map_sum id price (detect ''price is 0'') = Inr (Some 0)
   \<and> extractTradeInfo (JStr ''price is 0'') = Inr None"
  using zero_fails_gate [OF detect_price_zero] detect_price_zero by simp

section \<open>Indicators\<close>

lemma indicator_loop_append:
  "indicator_loop (xs @ ys) s found = indicator_loop ys s (indicator_loop xs s found)"
  by (induction xs arbitrary: found) simp_all

lemma indicator_loop_block:
  "\<forall>x \<in> set xs. normalizeIndicator x = n \<Longrightarrow>
   indicator_loop xs s found = found \<or> (n \<notin> set found \<and> indicator_loop xs s found = found @ [n])"
proof (induction xs arbitrary: found)
  case Nil
  show ?case by simp
next
  case (Cons x xs)
  then have n: "normalizeIndicator x = n" and rest: "\<forall>x \<in> set xs. normalizeIndicator x = n" by auto
  show ?case
  proof (cases "js_test (indicatorPattern x) s \<and> n \<notin> set found")
    case True
    then have "indicator_loop (x # xs) s found = indicator_loop xs s (found @ [n])"
      using n by (simp add: Let_def)
    moreover have "indicator_loop xs s (found @ [n]) = found @ [n]"
      using Cons.IH [OF rest, of "found @ [n]"] by auto
    ultimately show ?thesis using True by simp
  next
    case False
    then have "indicator_loop (x # xs) s found = indicator_loop xs s found"
      using n by (auto simp: Let_def)
    then show ?thesis using Cons.IH [OF rest, of found] by simp
  qed
qed

lemma indicator_loop_blocks:
  "\<forall>b \<in> set bs. \<forall>x \<in> set (snd b). normalizeIndicator x = fst b \<Longrightarrow> distinct (map fst bs) \<Longrightarrow>
   \<exists>P. indicator_loop (concat (map snd bs)) s found = found @ filter P (map fst bs)"
proof (induction bs arbitrary: found)
  case Nil
  show ?case by simp
next
  case (Cons b bs)
  let ?f = "indicator_loop (snd b) s found"
  from Cons.prems have blk: "\<forall>x \<in> set (snd b). normalizeIndicator x = fst b"
    and rest: "\<forall>b \<in> set bs. \<forall>x \<in> set (snd b). normalizeIndicator x = fst b"
    and d: "distinct (map fst bs)" and nb: "fst b \<notin> set (map fst bs)" by auto
  from Cons.IH [OF rest d, of ?f] obtain P
    where P: "indicator_loop (concat (map snd bs)) s ?f = ?f @ filter P (map fst bs)" by blast
  have all: "indicator_loop (concat (map snd (b # bs))) s found = ?f @ filter P (map fst bs)"
    using P by (simp add: indicator_loop_append)
  from indicator_loop_block [OF blk, of s found]
  show ?case
  proof
    assume "?f = found"
    then have "indicator_loop (concat (map snd (b # bs))) s found
               = found @ filter (\<lambda>m. m \<noteq> fst b \<and> P m) (map fst (b # bs))"
      using all nb by (auto intro: filter_cong)
    then show ?thesis by blast
  next
    assume "fst b \<notin> set found \<and> ?f = found @ [fst b]"
    then have "indicator_loop (concat (map snd (b # bs))) s found
               = found @ filter (\<lambda>m. m = fst b \<or> P m) (map fst (b # bs))"
      using all nb by (auto intro: filter_cong)
    then show ?thesis by blast
  qed
qed

lemma indicator_blocks_concat: "concat (map snd INDICATOR_BLOCKS) = INDICATORS"
  by (simp add: INDICATOR_BLOCKS_def INDICATORS_def)

lemma indicator_blocks_names: "map fst INDICATOR_BLOCKS = remdups (map normalizeIndicator INDICATORS)"
  by code_simp

lemma indicator_blocks_normal:
  "\<forall>b \<in> set INDICATOR_BLOCKS. \<forall>x \<in> set (snd b). normalizeIndicator x = fst b"
  by code_simp

lemma indicators_filter:
  "\<exists>P. indicator_loop INDICATORS s [] = filter P (remdups (map normalizeIndicator INDICATORS))"
proof -
  have "distinct (map fst INDICATOR_BLOCKS)"
    by code_simp
  from indicator_loop_blocks [OF indicator_blocks_normal this, of s "[]"]
  show ?thesis by (simp add: indicator_blocks_concat indicator_blocks_names)
qed

lemma indicator_loop_mono: "set found \<subseteq> set (indicator_loop xs s found)"
proof (induction xs arbitrary: found)
  case Nil
  show ?case by simp
next
  case (Cons x xs)
  let ?f = "if js_test (indicatorPattern x) s
        then (let n = normalizeIndicator x in if n \<in> set found then found else found @ [n])
        else found"
  have "set found \<subseteq> set ?f" by (auto simp: Let_def)
  also have "\<dots> \<subseteq> set (indicator_loop xs s ?f)" by (rule Cons.IH)
  finally show ?case by simp
qed

lemma indicator_loop_hit:
  "x \<in> set xs \<Longrightarrow> js_test (indicatorPattern x) s \<Longrightarrow>
   normalizeIndicator x \<in> set (indicator_loop xs s found)"
proof (induction xs arbitrary: found)
  case Nil
  then show ?case by simp
next
  case (Cons y ys)
  let ?f = "if js_test (indicatorPattern y) s
        then (let n = normalizeIndicator y in if n \<in> set found then found else found @ [n])
        else found"
  have step: "indicator_loop (y # ys) s found = indicator_loop ys s ?f" by simp
  show ?case
  proof (cases "x = y")
    case True
    then have "normalizeIndicator x \<in> set ?f"
      using Cons.prems(2) by (auto simp: Let_def)
    moreover have "set ?f \<subseteq> set (indicator_loop ys s ?f)" by (rule indicator_loop_mono)
    ultimately show ?thesis unfolding step by (rule set_mp [rotated])
  next
    case False
    then have "x \<in> set ys" using Cons.prems(1) by simp
    from Cons.IH [OF this Cons.prems(2), of ?f] show ?thesis unfolding step .
  qed
qed

lemma map_of_filter_snd:
  "distinct (map fst obj) \<Longrightarrow>
   map_of (filter (\<lambda>kv. P (snd kv)) obj) k =
     (case map_of obj k of None \<Rightarrow> None | Some v \<Rightarrow> if P v then Some v else None)"
proof (induction obj)
  case Nil
  show ?case by simp
next
  case (Cons kv obj)
  then show ?case
    by (cases kv) (auto split: option.splits simp: map_of_eq_None_iff image_iff dest: map_of_SomeD)
qed

lemma extract_indicators:
  assumes "extractTradeInfo (JStr s) = Inr (Some obj)" "map_of obj ''indicators'' = Some (JArr inds)"
  shows "inds = indicator_loop INDICATORS s []"
proof -
  from extract_Some [OF assms(1)] obtain t where t: "detect s = Inr t"
    and o: "obj = filter (\<lambda>kv. kept (snd kv)) (trade_object t)" by auto
  have "map_of (trade_object t) ''indicators'' = Some (JArr (indicators t))"
    by (simp add: trade_object_def)
  with assms(2) have "inds = indicators t"
    unfolding o by (simp add: map_of_filter_snd distinct_trade_object split: if_splits)
  moreover have "indicators t = indicator_loop INDICATORS s []"
    using t by (auto simp: detect_def Let_def split: sum.splits)
  ultimately show ?thesis by simp
qed

text \<open>
  Claim C6, as the code has it. In every record that has an \<open>indicators\<close> field, the list
  has no duplicates and follows the order of the vocabulary \<open>INDICATORS\<close> (not the order
  of mention in the text); the mis-transcriptions MHCD and MCD never appear in it, and a
  text in which the word MHCD (or MCD) occurs has MACD in it.
\<close>

theorem indicators_canonical:
  assumes "extractTradeInfo (JStr s) = Inr (Some obj)" "map_of obj ''indicators'' = Some (JArr inds)"
  shows "distinct inds \<and> subseq inds (remdups (map normalizeIndicator INDICATORS))
         \<and> ''MHCD'' \<notin> set inds \<and> ''MCD'' \<notin> set inds
         \<and> (js_test (indicatorPattern ''MHCD'') s \<longrightarrow> ''MACD'' \<in> set inds)
         \<and> (js_test (indicatorPattern ''MCD'') s \<longrightarrow> ''MACD'' \<in> set inds)"
proof -
  have i: "inds = indicator_loop INDICATORS s []" using assms by (rule extract_indicators)
  obtain P where P: "inds = filter P (remdups (map normalizeIndicator INDICATORS))"
    using indicators_filter [of s] i by auto
  have names: "''MHCD'' \<notin> set (remdups (map normalizeIndicator INDICATORS))"
    "''MCD'' \<notin> set (remdups (map normalizeIndicator INDICATORS))"
    by code_simp+
  have hit: "js_test (indicatorPattern x) s \<Longrightarrow> x \<in> set INDICATORS \<Longrightarrow> normalizeIndicator x \<in> set inds" for x
    unfolding i by (rule indicator_loop_hit)
  have "normalizeIndicator ''MHCD'' = ''MACD''" "normalizeIndicator ''MCD'' = ''MACD''"
    "''MHCD'' \<in> set INDICATORS" "''MCD'' \<in> set INDICATORS"
    by code_simp+
  with hit have "js_test (indicatorPattern ''MHCD'') s \<longrightarrow> ''MACD'' \<in> set inds"
    "js_test (indicatorPattern ''MCD'') s \<longrightarrow> ''MACD'' \<in> set inds" by metis+
  moreover have "distinct inds" "subseq inds (remdups (map normalizeIndicator INDICATORS))"
    unfolding P by simp_all
  moreover have "''MHCD'' \<notin> set inds" "''MCD'' \<notin> set inds"
    using names unfolding P by auto
  ultimately show ?thesis by simp
qed

lemma extract_two_indicators:
  "extractTradeInfo (JStr ''Buy BTC MHCD and MACD with RSI'') =
     Inr (Some [(''ticker'', JStr ''BTC''), (''action'', JStr ''buy''),
                (''indicators'', JArr [''RSI'', ''MACD'']), (''tradeType'', JStr ''long'')])
   \<and> js_test (indicatorPattern ''MHCD'') ''Buy BTC MHCD and MACD with RSI''"
  by code_simp

theorem indicators_canonical_witness:
  "extractTradeInfo (JStr ''Buy BTC MHCD and MACD with RSI'') =
     Inr (Some [(''ticker'', JStr ''BTC''), (''action'', JStr ''buy''),
                (''indicators'', JArr [''RSI'', ''MACD'']), (''tradeType'', JStr ''long'')])
   \<and> js_test (indicatorPattern ''MHCD'') ''Buy BTC MHCD and MACD with RSI''
   \<and> distinct [''RSI'', ''MACD''] \<and> ''MACD'' \<in> set [''RSI'', ''MACD'']
   \<and> ''MHCD'' \<notin> set [''RSI'', ''MACD''] \<and> ''MCD'' \<notin> set [''RSI'', ''MACD'']
   \<and> subseq [''RSI'', ''MACD''] (remdups (map normalizeIndicator INDICATORS))"
  using indicators_canonical [OF extract_two_indicators [THEN conjunct1], of "[''RSI'', ''MACD'']"]
    extract_two_indicators
  by simp

text \<open>
  Claim C6 as stated fails: in "Buy MACD RSI" the text mentions MACD (after "Buy ") before
  RSI (after "Buy MACD "), and the record lists RSI first.
\<close>

theorem first_mention_counterexample:
  "extractTradeInfo (JStr ''Buy MACD RSI'') =
     Inr (Some [(''ticker'', JStr ''MACD''), (''action'', JStr ''buy''),
                (''indicators'', JArr [''RSI'', ''MACD'']), (''tradeType'', JStr ''long'')])
   \<and> map_option (\<lambda>mt. rev (before_match mt)) (js_match ''Buy MACD RSI'' (indicatorPattern ''MACD'')) = Some ''Buy ''
   \<and> map_option (\<lambda>mt. rev (before_match mt)) (js_match ''Buy MACD RSI'' (indicatorPattern ''RSI'')) = Some ''Buy MACD ''"
  by code_simp

section \<open>The ticker cascade\<close>















section \<open>Number formatting\<close>












section \<open>The summary\<close>






lemma summary_example:
  "generateTradeSummary host_unused \<lparr> s_ticker = Some ''BTC/USDT'', s_action = Some ''buy'',
       s_quantity = Some (Finite 5000), s_price = Some (Finite (190001 / 2)),
       s_stopLoss = Some (Finite 92000), s_takeProfit = Some (Finite 105000),
       s_positionSize = Some (Finite 500), s_exchange = None, s_timeframe = None,
       s_indicators = [], s_breakEven = Some (BreakAt (Finite 95000)),
       s_leverage = Some (Finite 10), s_tradeType = Some ''long'' \<rparr>
     = ''Long BTC/USDT 5000 shares $500.00 position 10x at $95,000.5 '' @ BULLET @
       '' Stop loss: $92,000 '' @ BULLET @ '' Target: $105,000 '' @ BULLET @ '' Break even: $95,000''"
  by code_simp




section \<open>The scenarios of the specification\<close>

text \<open>
  Claim C1. The transcript "Open Long BTC USDT, Mean Reversion Trade, 500 USD, stop loss at
  86,000, take profit at 94,000 USD." yields the record with ticker BTC/USDT, action buy,
  trade type long, position size 500, stop loss 86000 and take profit 94000, and no other
  field: no price and no quantity. The comma-grouped "86,000" parses to 86000.
\<close>

theorem scenario_record:
  "extractTradeInfo (JStr ''Open Long BTC USDT, Mean Reversion Trade, 500 USD, stop loss at 86,000, take profit at 94,000 USD.'') =
     Inr (Some [(''ticker'', JStr ''BTC/USDT''), (''action'', JStr ''buy''), (''stopLoss'', JNum 86000),
                (''takeProfit'', JNum 94000), (''positionSize'', JNum 500), (''tradeType'', JStr ''long'')])
   \<and> parseNumber (Some ''86,000'') = Some 86000"
  by code_simp

theorem scenario_record_witness:
  "js_truthy (JStr ''Open Long BTC USDT, Mean Reversion Trade, 500 USD, stop loss at 86,000, take profit at 94,000 USD.'')
   \<and> map_option (map fst) (projr (extractTradeInfo (JStr ''Open Long BTC USDT, Mean Reversion Trade, 500 USD, stop loss at 86,000, take profit at 94,000 USD.'')))
       = Some [''ticker'', ''action'', ''stopLoss'', ''takeProfit'', ''positionSize'', ''tradeType'']"
  using scenario_record by (simp add: js_truthy_def)

text \<open>
  Claim C3. "Buy AAPL stop loss at $140" yields a record without a price and with stop loss
  140. The first two price patterns match ("at $140" after "Buy AAPL stop loss ", and
  "$140" after "Buy AAPL stop loss at "); each time the 20 characters before the match
  contain the stop-loss keyword and the candidate is rejected; the third pattern does not
  match.
\<close>

theorem stop_loss_is_not_price:
  "extractTradeInfo (JStr ''Buy AAPL stop loss at $140'') =
     Inr (Some [(''ticker'', JStr ''AAPL''), (''action'', JStr ''buy''), (''stopLoss'', JNum 140),
                (''tradeType'', JStr ''long'')])
   \<and> map (\<lambda>p. map_option (\<lambda>mt. (rev (before_match mt),
                                   js_test priceExcludeBefore (rev (take 20 (before_match mt)))))
                (js_match ''Buy AAPL stop loss at $140'' p)) pricePatterns
       = [Some (''Buy AAPL stop loss '', True), Some (''Buy AAPL stop loss at '', True), None]"
  by code_simp

theorem stop_loss_is_not_price_witness:
  "js_truthy (JStr ''Buy AAPL stop loss at $140'')
   \<and> map_option (\<lambda>obj. (map_of obj ''price'', map_of obj ''stopLoss''))
        (projr (extractTradeInfo (JStr ''Buy AAPL stop loss at $140''))) = Some (None, Some (JNum 140))"
  using stop_loss_is_not_price by (simp add: js_truthy_def)

text \<open>
  Claim C4. "Stopplers at 92000" yields a record whose stop loss is 92000: the mishearing is
  rewritten to "STOP LOSS" in the upper-cased text before the stop-loss patterns are tried.
\<close>

theorem stopplers_stop_loss:
  "normalize_loop STOP_LOSS_VARIANTS (toUpperCase ''Stopplers at 92000'') = ''STOP LOSS AT 92000''
   \<and> extractTradeInfo (JStr ''Stopplers at 92000'') =
       Inr (Some [(''price'', JNum 92000), (''stopLoss'', JNum 92000)])"
  by code_simp

theorem stopplers_stop_loss_witness:
  "js_truthy (JStr ''Stopplers at 92000'')
   \<and> map_option (\<lambda>obj. map_of obj ''stopLoss'') (projr (extractTradeInfo (JStr ''Stopplers at 92000'')))
       = Some (Some (JNum 92000))"
  using stopplers_stop_loss by (simp add: js_truthy_def)

end
